theory Spec2Isabelle
  imports Main "HOL-Library.Word"
begin

section \<open>C strings\<close>

text \<open>
  A C string is modelled by the list of its characters before the terminating NUL, a
  pointer into a string by an index (or by the remaining suffix where the code only
  moves forward). The program never calls \<^verbatim>\<open>setlocale\<close>, so case folding is that of
  the C locale: only the letters A to Z change.
\<close>

definition tolower :: "char \<Rightarrow> char" where
  "tolower c =
     (case map_of (zip ''ABCDEFGHIJKLMNOPQRSTUVWXYZ'' ''abcdefghijklmnopqrstuvwxyz'') c of
        Some l \<Rightarrow> l
      | None \<Rightarrow> c)"

text \<open>\<^verbatim>\<open>strchr\<close>: the index of the first occurrence, \<open>None\<close> for a NULL result.\<close>

fun strchr :: "string \<Rightarrow> char \<Rightarrow> nat option" where
  "strchr [] c = None"
| "strchr (x # xs) c = (if x = c then Some 0 else map_option Suc (strchr xs c))"

text \<open>
  \<^verbatim>\<open>strncmp\<close> and \<^verbatim>\<open>strncasecmp\<close> compare at most \<open>n\<close> characters and stop at the
  terminator of either string. Only the sign of the result is specified by C.
\<close>

fun strncmp :: "string \<Rightarrow> string \<Rightarrow> nat \<Rightarrow> int" where
  "strncmp a b 0 = 0"
| "strncmp [] [] (Suc n) = 0"
| "strncmp [] (y # ys) (Suc n) = - 1"
| "strncmp (x # xs) [] (Suc n) = 1"
| "strncmp (x # xs) (y # ys) (Suc n) =
     (if x = y then strncmp xs ys n
      else if (of_char x :: nat) < of_char y then - 1 else 1)"

fun strncasecmp :: "string \<Rightarrow> string \<Rightarrow> nat \<Rightarrow> int" where
  "strncasecmp a b 0 = 0"
| "strncasecmp [] [] (Suc n) = 0"
| "strncasecmp [] (y # ys) (Suc n) = - 1"
| "strncasecmp (x # xs) [] (Suc n) = 1"
| "strncasecmp (x # xs) (y # ys) (Suc n) =
     (if tolower x = tolower y then strncasecmp xs ys n
      else if (of_char (tolower x) :: nat) < of_char (tolower y) then - 1 else 1)"

section \<open>The URL engine and the environment\<close>

text \<open>
  libcurl's URL API, the file system and the version strings are outside the program.
  They are parameters of the model: a handle type \<open>'h\<close> and the functions the program
  calls on it. \<open>curl_url_set\<close> returns the result code and the handle after the call
  (a NULL value is \<open>None\<close>), \<open>curl_url_get\<close> the result code and the string it stored
  (read only when the code is \<open>CURLUE_OK\<close>). Allocation is assumed to succeed
  (\<^verbatim>\<open>malloc\<close>, \<^verbatim>\<open>curl_url\<close>, \<^verbatim>\<open>curl_slist_append\<close>, \<^verbatim>\<open>curl_maprintf\<close>,
  \<^verbatim>\<open>curl_easy_escape\<close>, \<^verbatim>\<open>strdup\<close>).
\<close>

datatype CURLUPart =
  CURLUPART_URL | CURLUPART_SCHEME | CURLUPART_USER | CURLUPART_PASSWORD
| CURLUPART_OPTIONS | CURLUPART_HOST | CURLUPART_PORT | CURLUPART_PATH
| CURLUPART_QUERY | CURLUPART_FRAGMENT | CURLUPART_ZONEID

datatype CURLUcode =
  CURLUE_OK | CURLUE_NO_SCHEME | CURLUE_NO_USER | CURLUE_NO_PASSWORD
| CURLUE_NO_OPTIONS | CURLUE_NO_HOST | CURLUE_NO_PORT | CURLUE_NO_QUERY
| CURLUE_NO_FRAGMENT | CURLUE_NO_ZONEID | CURLUE_OTHER nat

datatype CURLUflag =
  CURLU_DEFAULT_PORT | CURLU_NO_DEFAULT_PORT | CURLU_NON_SUPPORT_SCHEME
| CURLU_URLDECODE | CURLU_URLENCODE | CURLU_GUESS_SCHEME | CURLU_ALLOW_SPACE

record 'h env =
  curl_url :: "'h"
  curl_url_set :: "'h \<Rightarrow> CURLUPart \<Rightarrow> string option \<Rightarrow> CURLUflag set \<Rightarrow> CURLUcode \<times> 'h"
  curl_url_get :: "'h \<Rightarrow> CURLUPart \<Rightarrow> CURLUflag set \<Rightarrow> CURLUcode \<times> string"
  curl_url_strerror :: "CURLUcode \<Rightarrow> string"
  curl_easy_escape :: "string \<Rightarrow> string"
  curl_version :: "string"
  TRURL_VERSION_TXT :: "string"
  fopen :: "string \<Rightarrow> string option"
  stdin :: "string"

definition variables :: "(string \<times> CURLUPart) list" where
  "variables =
    [(''url'', CURLUPART_URL),
     (''scheme'', CURLUPART_SCHEME),
     (''user'', CURLUPART_USER),
     (''password'', CURLUPART_PASSWORD),
     (''options'', CURLUPART_OPTIONS),
     (''host'', CURLUPART_HOST),
     (''port'', CURLUPART_PORT),
     (''path'', CURLUPART_PATH),
     (''query'', CURLUPART_QUERY),
     (''fragment'', CURLUPART_FRAGMENT),
     (''zoneid'', CURLUPART_ZONEID)]"

definition NUM_COMPONENTS :: nat where "NUM_COMPONENTS = 11"

definition PROGNAME :: string where "PROGNAME = ''trurl''"
definition ERROR_PREFIX :: string where "ERROR_PREFIX = PROGNAME @ '' error: ''"
definition WARN_PREFIX :: string where "WARN_PREFIX = PROGNAME @ '' note: ''"

definition ERROR_FILE :: nat where "ERROR_FILE = 1"
definition ERROR_APPEND :: nat where "ERROR_APPEND = 2"
definition ERROR_ARG :: nat where "ERROR_ARG = 3"
definition ERROR_FLAG :: nat where "ERROR_FLAG = 4"
definition ERROR_SET :: nat where "ERROR_SET = 5"
definition ERROR_MEM :: nat where "ERROR_MEM = 6"
definition ERROR_URL :: nat where "ERROR_URL = 7"
definition ERROR_TRIM :: nat where "ERROR_TRIM = 8"
definition ERROR_BADURL :: nat where "ERROR_BADURL = 9"
definition ERROR_ITER :: nat where "ERROR_ITER = 10"

section \<open>Program state\<close>

text \<open>
  \<^verbatim>\<open>struct option\<close>. A \<^verbatim>\<open>curl_slist\<close> pointer is the address of its list in the store
  \<open>slists\<close> (\<open>None\<close> is NULL): \<^verbatim>\<open>memcpy\<close> of an option copies the pointers, and
  \<^verbatim>\<open>curl_slist_append\<close> extends a non-empty list in place. The \<^verbatim>\<open>iterate\<close> links form
  one NULL-terminated chain that starts at \<^verbatim>\<open>o\<close> in \<^verbatim>\<open>main\<close>; the model keeps the
  chain as the list \<open>chain\<close>, a \<^verbatim>\<open>struct option *\<close> is an index into it, and a node's
  \<^verbatim>\<open>iterate\<close> is NULL exactly when the node is the last. The stream \<^verbatim>\<open>url\<close> is the
  text still to be read from it, the counter \<^verbatim>\<open>urls\<close> an \<^verbatim>\<open>unsigned int\<close> of 32 bits.
\<close>

record option_t =
  url_list :: "nat option"
  append_path :: "nat option"
  append_query :: "nat option"
  set_list :: "nat option"
  trim_list :: "nat option"
  redirect :: "string option"
  format :: "string option"
  url :: "string option"
  urlopen :: bool
  jsonout :: bool
  verify :: bool
  accept_space :: bool
  output_mode :: nat
  urls :: "32 word"

text \<open>
  The globals \<^verbatim>\<open>qpairs\<close> and \<^verbatim>\<open>nqpairs\<close> are the list \<open>qpairs\<close> of the stored entries
  (\<^verbatim>\<open>nqpairs\<close> is its length); \<open>out\<close> and \<open>err\<close> are what has been written to stdout
  and stderr.
\<close>

record state =
  chain :: "option_t list"
  slists :: "nat \<Rightarrow> string list"
  next_slist :: nat
  qpairs :: "string list"
  out :: string
  err :: string

definition MAX_QPAIRS :: nat where "MAX_QPAIRS = 1000"

definition nqpairs :: "state \<Rightarrow> nat" where
  "nqpairs s = length (qpairs s)"

text \<open>
  How a call can end without returning: \<^verbatim>\<open>errorf\<close> (exit code and formatted message),
  a plain \<^verbatim>\<open>exit\<close>, or behaviour C leaves undefined.
\<close>

datatype fault = Errorf nat string | Exit nat | Undefined string

definition fputs :: "string \<Rightarrow> state \<Rightarrow> state" where
  "fputs str s = s\<lparr>out := out s @ str\<rparr>"

definition fputc :: "char \<Rightarrow> state \<Rightarrow> state" where
  "fputc c s = s\<lparr>out := out s @ [c]\<rparr>"

definition eputs :: "string \<Rightarrow> state \<Rightarrow> state" where
  "eputs str s = s\<lparr>err := err s @ str\<rparr>"

definition warnf :: "string \<Rightarrow> state \<Rightarrow> state" where
  "warnf msg s = eputs (WARN_PREFIX @ msg @ [CHR 0x0A]) s"

definition errorf :: "nat \<Rightarrow> string \<Rightarrow> state \<Rightarrow> (fault \<times> state) + 'a" where
  "errorf exit_code msg s =
     Inl (Errorf exit_code msg,
          eputs (ERROR_PREFIX @ msg @ [CHR 0x0A] @ ERROR_PREFIX @ ''Try '' @ PROGNAME
                 @ '' -h for help'' @ [CHR 0x0A]) s)"

section \<open>Query pairs\<close>

definition memdupzero :: "string \<Rightarrow> nat \<Rightarrow> string" where
  "memdupzero source len = take len source"

definition freeqpairs :: "state \<Rightarrow> state" where
  "freeqpairs s = s\<lparr>qpairs := []\<rparr>"

definition addqpair :: "string \<Rightarrow> nat \<Rightarrow> state \<Rightarrow> state" where
  "addqpair pair len s =
     (if nqpairs s < MAX_QPAIRS then s\<lparr>qpairs := qpairs s @ [memdupzero pair len]\<rparr>
      else warnf ''too many query pairs'' s)"

text \<open>The \<^verbatim>\<open>while(*p)\<close> loop of \<^verbatim>\<open>extractqpairs\<close>; \<open>p\<close> is the rest of the query.\<close>

function extractqpairs_loop :: "string \<Rightarrow> state \<Rightarrow> state" where
  "extractqpairs_loop p s =
     (if p = [] then s
      else (case strchr p (CHR ''&'') of
              None \<Rightarrow> addqpair p (length p) s
            | Some amp \<Rightarrow> extractqpairs_loop (drop (amp + 1) p) (addqpair p amp s)))"
  by pat_completeness auto
termination
  by (relation "measure (\<lambda>(p, s). length p)") auto

declare extractqpairs_loop.simps [simp del]

definition extractqpairs :: "'h env \<Rightarrow> 'h \<Rightarrow> state \<Rightarrow> state" where
  "extractqpairs E uh s =
     (case curl_url_get E uh CURLUPART_QUERY {} of
        (rc, q) \<Rightarrow>
          if rc = CURLUE_OK then extractqpairs_loop q (s\<lparr>qpairs := []\<rparr>)
          else s\<lparr>qpairs := []\<rparr>)"

text \<open>
  The loop of \<^verbatim>\<open>qpair2query\<close> builds \<^verbatim>\<open>nq\<close>, NULL (\<open>None\<close>) until the first pair
  has been added.
\<close>

definition qpair2query_step :: "string option \<Rightarrow> string \<Rightarrow> string option" where
  "qpair2query_step nq qp =
     Some ((case nq of None \<Rightarrow> [] | Some n \<Rightarrow> n)
           @ (if nq \<noteq> None \<and> nq \<noteq> Some [] \<and> qp \<noteq> [] then ''&'' else [])
           @ qp)"

definition qpair2query_nq :: "string list \<Rightarrow> string option" where
  "qpair2query_nq qs = foldl qpair2query_step None qs"

definition qpair2query :: "'h env \<Rightarrow> 'h \<Rightarrow> state \<Rightarrow> 'h \<times> state" where
  "qpair2query E uh s =
     (case qpair2query_nq (qpairs s) of
        None \<Rightarrow> (uh, s)
      | Some nq \<Rightarrow>
          (case curl_url_set E uh CURLUPART_QUERY (Some nq) {} of
             (rc, uh') \<Rightarrow> (uh', if rc \<noteq> CURLUE_OK then warnf ''internal problem'' s else s)))"

section \<open>String lists\<close>

text \<open>
  \<^verbatim>\<open>curl_slist_append\<close> returns the head of the list: a new list for a NULL argument,
  the same head after extending the list in place otherwise.
\<close>

definition slist_data :: "state \<Rightarrow> nat option \<Rightarrow> string list" where
  "slist_data s l = (case l of None \<Rightarrow> [] | Some a \<Rightarrow> slists s a)"

definition curl_slist_append :: "nat option \<Rightarrow> string \<Rightarrow> state \<Rightarrow> nat option \<times> state" where
  "curl_slist_append l d s =
     (case l of
        None \<Rightarrow> (Some (next_slist s),
                 s\<lparr>slists := (slists s)(next_slist s := [d]), next_slist := Suc (next_slist s)\<rparr>)
      | Some a \<Rightarrow> (Some a, s\<lparr>slists := (slists s)(a := slists s a @ [d])\<rparr>))"

fun slist_clone_loop :: "nat option \<Rightarrow> string list \<Rightarrow> state \<Rightarrow> nat option \<times> state" where
  "slist_clone_loop item [] s = (item, s)"
| "slist_clone_loop item (d # ds) s =
     (case curl_slist_append item d s of (item', s') \<Rightarrow> slist_clone_loop item' ds s')"

definition slist_clone :: "nat option \<Rightarrow> state \<Rightarrow> nat option \<times> state" where
  "slist_clone l s = slist_clone_loop None (slist_data s l) s"

section \<open>Trimming query pairs\<close>

text \<open>
  One pass of the inner loop of \<^verbatim>\<open>trim\<close> over \<^verbatim>\<open>qpairs[i]\<close>: \<open>ptr\<close> is the text after
  the \<^verbatim>\<open>=\<close> of the directive, \<open>inslen\<close> and \<open>pattern\<close> are as the code computed them.
\<close>

definition trim_qpair :: "string \<Rightarrow> nat \<Rightarrow> bool \<Rightarrow> string \<Rightarrow> string" where
  "trim_qpair ptr inslen pattern q =
     (let qlen = (case strchr q (CHR ''='') of Some sep \<Rightarrow> sep | None \<Rightarrow> length q)
      in if (pattern \<and> inslen \<le> qlen \<and> strncasecmp q ptr inslen = 0)
            \<or> (\<not> pattern \<and> inslen = qlen \<and> strncasecmp q ptr inslen = 0)
         then [] else q)"

text \<open>
  The body of the outer loop for one directive \<open>instr\<close>. With nothing after the
  \<^verbatim>\<open>=\<close>, \<^verbatim>\<open>ptr[inslen - 1]\<close> reads the \<^verbatim>\<open>=\<close> itself.
\<close>

definition trim_instr :: "string \<Rightarrow> state \<Rightarrow> (fault \<times> state) + state" where
  "trim_instr instr s =
     (if strncasecmp instr ''query'' 5 \<noteq> 0
      then errorf ERROR_TRIM (''Unsupported trim component: '' @ instr) s
      else (case strchr instr (CHR ''='') of
              None \<Rightarrow> Inr s
            | Some eq \<Rightarrow>
                if 0 < eq then
                  (let ptr = drop (eq + 1) instr;
                       inslen = length ptr;
                       pattern = ((if inslen = 0 then CHR ''='' else ptr ! (inslen - 1)) = CHR ''*'');
                       inslen = (if pattern then inslen - 1 else inslen)
                   in Inr (s\<lparr>qpairs := map (trim_qpair ptr inslen pattern) (qpairs s)\<rparr>))
                else Inr s))"

fun trim_loop :: "string list \<Rightarrow> state \<Rightarrow> (fault \<times> state) + state" where
  "trim_loop [] s = Inr s"
| "trim_loop (instr # nodes) s =
     (case trim_instr instr s of Inl e \<Rightarrow> Inl e | Inr s' \<Rightarrow> trim_loop nodes s')"

definition trim :: "nat \<Rightarrow> state \<Rightarrow> (fault \<times> state) + state" where
  "trim opt s = trim_loop (slist_data s (trim_list (chain s ! opt))) s"

section \<open>The output format\<close>

text \<open>
  The loop over \<^verbatim>\<open>variables\<close> inside \<^verbatim>\<open>get\<close>: \<open>ptr\<close> is the format from the name
  on. \<^verbatim>\<open>case CURLUE_OK\<close> falls through to the codes that are ignored.
\<close>

fun get_vars :: "'h env \<Rightarrow> 'h \<Rightarrow> string \<Rightarrow> nat \<Rightarrow> bool \<Rightarrow> (string \<times> CURLUPart) list \<Rightarrow> state \<Rightarrow> state" where
  "get_vars E uh ptr vlen urldecode [] s = s"
| "get_vars E uh ptr vlen urldecode ((name, part) # vs) s =
     get_vars E uh ptr vlen urldecode vs
       (if length name = vlen \<and> strncasecmp ptr name vlen = 0 then
          (case curl_url_get E uh part
                  ({CURLU_DEFAULT_PORT, CURLU_NO_DEFAULT_PORT}
                   \<union> (if urldecode then {CURLU_URLDECODE} else {})) of
             (rc, nurl) \<Rightarrow>
               if rc = CURLUE_OK then fputs nurl s
               else if rc \<in> {CURLUE_NO_SCHEME, CURLUE_NO_USER, CURLUE_NO_PASSWORD,
                               CURLUE_NO_OPTIONS, CURLUE_NO_HOST, CURLUE_NO_PORT,
                               CURLUE_NO_QUERY, CURLUE_NO_FRAGMENT, CURLUE_NO_ZONEID}
               then s
               else eputs (PROGNAME @ '': '' @ curl_url_strerror E rc @ '' ('' @ name @ '')''
                           @ [CHR 0x0A]) s)
        else s)"

text \<open>
  The \<^verbatim>\<open>while\<close> loop of \<^verbatim>\<open>get\<close>; \<open>ptr\<close> is the rest of the format. The flag
  \<^verbatim>\<open>done\<close> is never set, so the loop runs until the format ends.
\<close>

function get_loop :: "'h env \<Rightarrow> 'h \<Rightarrow> string \<Rightarrow> state \<Rightarrow> state" where
  "get_loop E uh [] s = s"
| "get_loop E uh (c # rest) s =
     (if c = CHR ''{'' then
        (if rest \<noteq> [] \<and> hd rest = CHR ''{'' then get_loop E uh (tl rest) (fputc (CHR ''{'') s)
         else (case strchr (c # rest) (CHR ''}'') of
                 None \<Rightarrow> get_loop E uh rest s
               | Some endp \<Rightarrow>
                   (let urldecode = \<not> (rest \<noteq> [] \<and> hd rest = CHR '':'');
                        start = (if urldecode then 1 else 2);
                        vlen = endp - start
                    in get_loop E uh (drop (endp + 1) (c # rest))
                         (get_vars E uh (drop start (c # rest)) vlen urldecode variables s))))
      else if c = CHR 0x5C \<and> rest \<noteq> [] then
        get_loop E uh (tl rest)
          (if hd rest = CHR ''r'' then fputc (CHR 0x0D) s
           else if hd rest = CHR ''n'' then fputc (CHR 0x0A) s
           else if hd rest = CHR ''t'' then fputc (CHR 0x09) s
           else fputc (hd rest) (fputc c s))
      else get_loop E uh rest (fputc c s))"
  by pat_completeness auto
termination
  by (relation "measure (\<lambda>(E, uh, ptr, s). length ptr)") auto

definition get :: "'h env \<Rightarrow> nat \<Rightarrow> 'h \<Rightarrow> state \<Rightarrow> state" where
  "get E op uh s =
     fputc (CHR 0x0A)
       (case format (chain s ! op) of None \<Rightarrow> s | Some ptr \<Rightarrow> get_loop E uh ptr s)"

section \<open>Setting components\<close>

text \<open>
  The inner loop of \<^verbatim>\<open>set\<close> over \<^verbatim>\<open>variables[i]\<close> for one directive \<open>setp\<close>
  (the string \<^verbatim>\<open>set\<close> of the code) whose first \<^verbatim>\<open>=\<close> is at index \<open>ptr\<close>. The result is the handle, \<^verbatim>\<open>varset\<close> and
  \<^verbatim>\<open>found\<close>. The pointer \<open>opt\<close> is kept as the code has it: \<open>None\<close> is NULL.
\<close>

fun set_vars ::
  "'h env \<Rightarrow> 'h \<Rightarrow> nat option \<Rightarrow> string \<Rightarrow> nat \<Rightarrow> nat \<Rightarrow> bool \<Rightarrow> bool list \<Rightarrow> nat
   \<Rightarrow> (string \<times> CURLUPart) list \<Rightarrow> state \<Rightarrow> (fault \<times> state) + ('h \<times> bool list \<times> bool)" where
  "set_vars E uh opt setp ptr vlen urlencode varset i [] s = Inr (uh, varset, False)"
| "set_vars E uh opt setp ptr vlen urlencode varset i ((name, part) # vs) s =
     (if length name = vlen \<and> strncasecmp setp name vlen = 0 then
        (if varset ! i \<and> opt = None
         then errorf ERROR_SET (''A component can only be set once per URL ('' @ name @ '')'') s
         else (case curl_url_set E uh part
                      (if drop (ptr + 1) setp \<noteq> [] then Some (drop (ptr + 1) setp) else None)
                      ({CURLU_NON_SUPPORT_SCHEME}
                       \<union> (if urlencode then {CURLU_URLENCODE} else {})) of
                 (rc, uh') \<Rightarrow> Inr (uh', varset[i := True], True)))
      else set_vars E uh opt setp ptr vlen urlencode varset (Suc i) vs s)"

fun set_loop ::
  "'h env \<Rightarrow> 'h \<Rightarrow> nat option \<Rightarrow> string list \<Rightarrow> bool list \<Rightarrow> state
   \<Rightarrow> (fault \<times> state) + ('h \<times> state)" where
  "set_loop E uh opt [] varset s = Inr (uh, s)"
| "set_loop E uh opt (setp # nodes) varset s =
     (case strchr setp (CHR ''='') of
        None \<Rightarrow> errorf ERROR_SET (''invalid --set syntax: '' @ setp) s
      | Some ptr \<Rightarrow>
          if 0 < ptr then
            (let urlencode = (setp ! (ptr - 1) \<noteq> CHR '':'');
                 vlen = (if urlencode then ptr else ptr - 1)
             in case set_vars E uh opt setp ptr vlen urlencode varset 0 variables s of
                  Inl e \<Rightarrow> Inl e
                | Inr (uh', varset', found) \<Rightarrow>
                    if \<not> found then errorf ERROR_SET (''Set unknown component: '' @ setp) s
                    else set_loop E uh' opt nodes varset' s)
          else errorf ERROR_SET (''invalid --set syntax: '' @ setp) s)"

text \<open>
  \<^verbatim>\<open>set\<close>. The loop header reads \<^verbatim>\<open>o->set_list\<close> before anything else, which C leaves
  undefined for a pointer that is NULL or points to no option.
\<close>

definition set' :: "'h env \<Rightarrow> 'h \<Rightarrow> nat option \<Rightarrow> state \<Rightarrow> (fault \<times> state) + ('h \<times> state)" where
  "set' E uh opt s =
     (case opt of
        None \<Rightarrow> Inl (Undefined ''o->set_list with o == NULL'', s)
      | Some i \<Rightarrow>
          if i < length (chain s)
          then set_loop E uh opt (slist_data s (set_list (chain s ! i)))
                 (replicate NUM_COMPONENTS False) s
          else Inl (Undefined ''o->set_list with o not an option'', s))"

section \<open>JSON output\<close>

text \<open>
  \<^verbatim>\<open>char\<close> is read as a signed byte and \<^verbatim>\<open>int\<close> as 32 bits wide, as on the x86 targets
  of the program: a byte above 127 is negative, hence below 32, and \<^verbatim>\<open>%04x\<close> prints its
  sign-extended value.
\<close>

definition hexdigit :: "nat \<Rightarrow> char" where
  "hexdigit d = (if d < 10 then char_of (48 + d) else char_of (87 + d))"

fun hex :: "nat \<Rightarrow> nat \<Rightarrow> string" where
  "hex 0 n = []"
| "hex (Suc k) n = hex k (n div 16) @ [hexdigit (n mod 16)]"

definition printf_04x :: "char \<Rightarrow> string" where
  "printf_04x c =
     (if (of_char c :: nat) < 128 then hex 4 (of_char c)
      else hex 8 (4294967040 + of_char c))"

fun jsonString_loop :: "string \<Rightarrow> bool \<Rightarrow> state \<Rightarrow> state" where
  "jsonString_loop [] lowercase s = s"
| "jsonString_loop (c # rest) lowercase s =
     jsonString_loop rest lowercase
       (if c = CHR 0x5C then fputs [CHR 0x5C, CHR 0x5C] s
        else if c = CHR 0x22 then fputs [CHR 0x5C, CHR 0x22] s
        else if c = CHR 0x08 then fputs [CHR 0x5C, CHR ''b''] s
        else if c = CHR 0x0C then fputs [CHR 0x5C, CHR ''f''] s
        else if c = CHR 0x0A then fputs [CHR 0x5C, CHR ''n''] s
        else if c = CHR 0x0D then fputs [CHR 0x5C, CHR ''r''] s
        else if c = CHR 0x09 then fputs [CHR 0x5C, CHR ''t''] s
        else if (of_char c :: nat) < 32 \<or> 128 \<le> (of_char c :: nat)
             then fputs (''u'' @ printf_04x c) s
        else fputc (if lowercase \<and> 65 \<le> (of_char c :: nat) \<and> (of_char c :: nat) \<le> 90
                    then char_of ((of_char c :: nat) + 32) else c) s)"

definition jsonString :: "string \<Rightarrow> bool \<Rightarrow> state \<Rightarrow> state" where
  "jsonString inp lowercase s =
     fputc (CHR 0x22) (jsonString_loop inp lowercase (fputc (CHR 0x22) s))"

fun json_loop :: "'h env \<Rightarrow> 'h \<Rightarrow> nat \<Rightarrow> (string \<times> CURLUPart) list \<Rightarrow> state \<Rightarrow> state" where
  "json_loop E uh i [] s = s"
| "json_loop E uh i ((name, part) # vs) s =
     json_loop E uh (Suc i) vs
       (case curl_url_get E uh part
               ((if i \<noteq> 0 then {CURLU_DEFAULT_PORT} else {}) \<union> {CURLU_URLDECODE}) of
          (rc, nurl) \<Rightarrow>
            if rc = CURLUE_OK then
              jsonString nurl False
                (fputs (''    '' @ [CHR 0x22] @ name @ [CHR 0x22] @ '': '')
                   (if i \<noteq> 0 then fputs ('','' @ [CHR 0x0A]) s else s))
            else s)"

definition json :: "'h env \<Rightarrow> nat \<Rightarrow> 'h \<Rightarrow> state \<Rightarrow> state" where
  "json E opt uh s =
     fputs ([CHR 0x0A] @ ''  }'')
       (json_loop E uh 0 variables
          (fputs ((if urls (chain s ! opt) \<noteq> 0 then '','' @ [CHR 0x0A] else []) @ ''  {''
                  @ [CHR 0x0A]) s))"

section \<open>Processing one URL\<close>

text \<open>
  The loop over \<^verbatim>\<open>o->append_path\<close>. The result of \<^verbatim>\<open>curl_url_get\<close> is not checked:
  when it fails \<^verbatim>\<open>opath\<close> is no string, and for an empty path \<^verbatim>\<open>opath[olen-1]\<close>
  reads before the string.
\<close>

fun append_path_loop :: "'h env \<Rightarrow> 'h \<Rightarrow> string list \<Rightarrow> state \<Rightarrow> (fault \<times> state) + 'h" where
  "append_path_loop E uh [] s = Inr uh"
| "append_path_loop E uh (apath # ps) s =
     (case curl_url_get E uh CURLUPART_PATH {} of
        (rc, opath) \<Rightarrow>
          if rc \<noteq> CURLUE_OK then Inl (Undefined ''strlen(opath) with opath no string'', s)
          else if opath = [] then Inl (Undefined ''opath[olen-1] with olen == 0'', s)
          else (case curl_url_set E uh CURLUPART_PATH
                       (Some (opath @ (if last opath = CHR ''/'' then [] else ''/'') @ apath)) {} of
                  (rc', uh') \<Rightarrow> append_path_loop E uh' ps s))"

text \<open>
  The first part of \<^verbatim>\<open>singleurl\<close>: the handle after parsing the URL \<open>urlp\<close> and redirecting,
  or \<open>None\<close> when the function returns early with a warning.
\<close>

definition singleurl_parse ::
  "'h env \<Rightarrow> nat \<Rightarrow> string option \<Rightarrow> state \<Rightarrow> (fault \<times> state) + ('h option \<times> state)" where
  "singleurl_parse E opt urlp s =
     (case urlp of
        None \<Rightarrow> Inr (Some (curl_url E), s)
      | Some u \<Rightarrow>
          (case curl_url_set E (curl_url E) CURLUPART_URL (Some u)
                  ({CURLU_GUESS_SCHEME, CURLU_NON_SUPPORT_SCHEME}
                   \<union> (if accept_space (chain s ! opt) then {CURLU_ALLOW_SPACE, CURLU_URLENCODE}
                       else {})) of
             (rc, uh) \<Rightarrow>
               if rc \<noteq> CURLUE_OK then
                 (if verify (chain s ! opt)
                  then errorf ERROR_BADURL (curl_url_strerror E rc @ '' ['' @ u @ '']'') s
                  else Inr (None, warnf (curl_url_strerror E rc @ '' ['' @ u @ '']'') s))
               else
                 (case redirect (chain s ! opt) of
                    None \<Rightarrow> Inr (Some uh, s)
                  | Some r \<Rightarrow>
                      Inr (Some (snd (curl_url_set E uh CURLUPART_URL (Some r)
                                       {CURLU_GUESS_SCHEME, CURLU_NON_SUPPORT_SCHEME})), s))))"

text \<open>The three output modes at the end of \<^verbatim>\<open>singleurl\<close>.\<close>

definition singleurl_output :: "'h env \<Rightarrow> nat \<Rightarrow> 'h \<Rightarrow> state \<Rightarrow> (fault \<times> state) + state" where
  "singleurl_output E opt uh s =
     (if jsonout (chain s ! opt) then Inr (json E opt uh s)
      else if format (chain s ! opt) \<noteq> None then Inr (get E opt uh s)
      else (case curl_url_get E uh CURLUPART_URL {CURLU_NO_DEFAULT_PORT} of
              (rc, nurl) \<Rightarrow>
                if rc = CURLUE_OK then Inr (fputs (nurl @ [CHR 0x0A]) s)
                else errorf ERROR_URL ''not enough input for a URL'' s))"

definition count_url :: "nat \<Rightarrow> state \<Rightarrow> state" where
  "count_url opt s =
     s\<lparr>chain := (chain s)[opt := (chain s ! opt)\<lparr>urls := urls (chain s ! opt) + 1\<rparr>]\<rparr>"

text \<open>The query part of \<^verbatim>\<open>singleurl\<close>, the output and the cleanup.\<close>

definition singleurl_query :: "'h env \<Rightarrow> nat \<Rightarrow> 'h \<Rightarrow> state \<Rightarrow> (fault \<times> state) + state" where
  "singleurl_query E opt uh s =
     (let s3 = extractqpairs E uh s;
          s4 = fold (\<lambda>d. addqpair d (length d)) (slist_data s3 (append_query (chain s3 ! opt))) s3
      in case trim opt s4 of
           Inl e \<Rightarrow> Inl e
         | Inr s5 \<Rightarrow>
             (case singleurl_output E opt (fst (qpair2query E uh s5)) (snd (qpair2query E uh s5)) of
                Inl e \<Rightarrow> Inl e
              | Inr s7 \<Rightarrow> Inr (count_url opt (freeqpairs s7))))"

text \<open>\<^verbatim>\<open>singleurl\<close> from \<^verbatim>\<open>set(uh, o)\<close> on.\<close>

definition singleurl_work :: "'h env \<Rightarrow> nat \<Rightarrow> 'h \<Rightarrow> state \<Rightarrow> (fault \<times> state) + state" where
  "singleurl_work E opt uh s =
     (case set' E uh (Some opt) s of
        Inl e \<Rightarrow> Inl e
      | Inr (uh2, s2) \<Rightarrow>
          (case append_path_loop E uh2 (slist_data s2 (append_path (chain s2 ! opt))) s2 of
             Inl e \<Rightarrow> Inl e
           | Inr uh3 \<Rightarrow> singleurl_query E opt uh3 s2))"

definition singleurl :: "'h env \<Rightarrow> nat \<Rightarrow> string option \<Rightarrow> state \<Rightarrow> (fault \<times> state) + state" where
  "singleurl E opt urlp s =
     (case singleurl_parse E opt urlp s of
        Inl e \<Rightarrow> Inl e
      | Inr (None, s1) \<Rightarrow> Inr s1
      | Inr (Some uh, s1) \<Rightarrow> singleurl_work E opt uh s1)"

section \<open>Command line options\<close>

definition set_node :: "nat \<Rightarrow> (option_t \<Rightarrow> option_t) \<Rightarrow> state \<Rightarrow> state" where
  "set_node opt f s = s\<lparr>chain := (chain s)[opt := f (chain s ! opt)]\<rparr>"

definition urladd :: "nat \<Rightarrow> string \<Rightarrow> state \<Rightarrow> state" where
  "urladd opt u s =
     (case curl_slist_append (url_list (chain s ! opt)) u s of
        (n, s') \<Rightarrow> set_node opt (\<lambda>x. x\<lparr>url_list := n\<rparr>) s')"

definition urlfile :: "'h env \<Rightarrow> nat \<Rightarrow> string \<Rightarrow> state \<Rightarrow> (fault \<times> state) + state" where
  "urlfile E opt file s =
     (if url (chain s ! opt) \<noteq> None then errorf ERROR_FLAG ''only one --url-file is supported'' s
      else if file \<noteq> ''-'' then
        (case fopen E file of
           None \<Rightarrow> errorf ERROR_FILE (''--url-file '' @ file @ '' not found'') s
         | Some f \<Rightarrow> Inr (set_node opt (\<lambda>x. x\<lparr>urlopen := True, url := Some f\<rparr>) s))
      else Inr (set_node opt (\<lambda>x. x\<lparr>url := Some (stdin E)\<rparr>) s))"

text \<open>\<^verbatim>\<open>curl_easy_escape(NULL, str, len)\<close>: a length of 0 stands for \<^verbatim>\<open>strlen(str)\<close>.\<close>

definition escape :: "'h env \<Rightarrow> string \<Rightarrow> nat \<Rightarrow> string" where
  "escape E str len = curl_easy_escape E (if len = 0 then str else take len str)"

definition pathadd :: "'h env \<Rightarrow> nat \<Rightarrow> string \<Rightarrow> state \<Rightarrow> state" where
  "pathadd E opt path s =
     (case curl_slist_append (append_path (chain s ! opt)) (escape E path 0) s of
        (n, s') \<Rightarrow> set_node opt (\<lambda>x. x\<lparr>append_path := n\<rparr>) s')"

definition queryadd :: "'h env \<Rightarrow> nat \<Rightarrow> string \<Rightarrow> state \<Rightarrow> state" where
  "queryadd E opt query s =
     (let urle = (case strchr query (CHR ''='') of
                    Some p \<Rightarrow> escape E query p @ ''='' @ escape E (drop (p + 1) query) 0
                  | None \<Rightarrow> escape E query 0)
      in case curl_slist_append (append_query (chain s ! opt)) urle s of
           (n, s') \<Rightarrow> set_node opt (\<lambda>x. x\<lparr>append_query := n\<rparr>) s')"

definition appendadd :: "'h env \<Rightarrow> nat \<Rightarrow> string \<Rightarrow> state \<Rightarrow> (fault \<times> state) + state" where
  "appendadd E opt arg s =
     (if strncasecmp ''path='' arg 5 = 0 then Inr (pathadd E opt (drop 5 arg) s)
      else if strncasecmp ''query='' arg 6 = 0 then Inr (queryadd E opt (drop 6 arg) s)
      else errorf ERROR_APPEND (''--append unsupported component: '' @ arg) s)"

text \<open>
  \<^verbatim>\<open>setadd\<close> appends to the set list of \<open>opt\<close> and of every option after it in the
  chain.
\<close>

definition setadd_node :: "string \<Rightarrow> nat \<Rightarrow> state \<Rightarrow> state" where
  "setadd_node setp opt s =
     (case curl_slist_append (set_list (chain s ! opt)) setp s of
        (n, s') \<Rightarrow> set_node opt (\<lambda>x. x\<lparr>set_list := n\<rparr>) s')"

definition setadd :: "nat \<Rightarrow> string \<Rightarrow> state \<Rightarrow> state" where
  "setadd opt setp s = fold (setadd_node setp) [opt..<length (chain s)] s"

definition trimadd :: "nat \<Rightarrow> string \<Rightarrow> state \<Rightarrow> state" where
  "trimadd opt tr s =
     (case curl_slist_append (trim_list (chain s ! opt)) tr s of
        (n, s') \<Rightarrow> set_node opt (\<lambda>x. x\<lparr>trim_list := n\<rparr>) s')"

text \<open>
  \<^verbatim>\<open>checkoptarg\<close> is only called in the conditions of the \<^verbatim>\<open>else if\<close> chain of
  \<^verbatim>\<open>getarg\<close>. The model passes it the two continuations: \<open>yes\<close>, the branch taken
  when \<open>str\<close> is the flag given (with the argument, checked not to be NULL), and
  \<open>no\<close>, the rest of the chain.
\<close>

definition checkoptarg ::
  "string \<Rightarrow> string \<Rightarrow> string option \<Rightarrow> state
   \<Rightarrow> (string \<Rightarrow> (fault \<times> state) + 'a) \<Rightarrow> (fault \<times> state) + 'a \<Rightarrow> (fault \<times> state) + 'a" where
  "checkoptarg str given arg s yes no =
     (if str = given then
        (case arg of
           None \<Rightarrow> errorf ERROR_ARG (''Missing argument for '' @ str) s
         | Some a \<Rightarrow> yes a)
      else no)"

text \<open>
  \<^verbatim>\<open>addoptiter\<close> copies the last option of the chain into a new one, links it as the
  new last option and returns its address.
\<close>

definition addoptiter :: "nat \<Rightarrow> state \<Rightarrow> nat \<times> state" where
  "addoptiter opt s = (length (chain s), s\<lparr>chain := chain s @ [last (chain s)]\<rparr>)"

section \<open>Iteration\<close>

text \<open>
  The prefix test of \<^verbatim>\<open>iterate\<close>: the text copied into \<^verbatim>\<open>buffer\<close> and \<^verbatim>\<open>offset\<close>.
  The first test compares five characters only.
\<close>

definition iterate_prefix :: "string \<Rightarrow> string \<times> nat" where
  "iterate_prefix arg =
     (if strncmp ''hosts='' arg 5 = 0 then (''host='', 5)
      else if strncmp ''ports='' arg 6 = 0 then (''port='', 5)
      else if strncmp ''schemes='' arg 8 = 0 then (''scheme='', 7)
      else ([], 0))"

text \<open>
  The \<^verbatim>\<open>while(*ptr != '\0')\<close> loop: \<open>ptr\<close> and \<open>argp\<close> (the code's \<^verbatim>\<open>_arg\<close>) are
  indices into \<open>arg\<close>, \<open>offset\<close> is the value after \<^verbatim>\<open>offset += 1\<close>. A token is
  copied behind the first \<open>offset - 1\<close> characters of the 4096 bytes of \<^verbatim>\<open>buffer\<close> and
  terminated there; a token that does not fit writes past the array.
\<close>

function iterate_loop ::
  "nat \<Rightarrow> string \<Rightarrow> string \<Rightarrow> nat \<Rightarrow> nat \<Rightarrow> nat \<Rightarrow> nat \<Rightarrow> state \<Rightarrow> (fault \<times> state) + state" where
  "iterate_loop op arg buffer offset ptr argp new_opt s =
     (if ptr < length arg then
        (case (if arg ! ptr = CHR '' '' then Some (ptr - argp, ptr + 1)
               else if Suc ptr = length arg then Some (ptr - argp + 1, argp)
               else None) of
           None \<Rightarrow> iterate_loop op arg buffer offset (Suc ptr) argp new_opt s
         | Some (n, argp') \<Rightarrow>
             if 4096 \<le> offset - 1 + n then Inl (Undefined ''write past the end of buffer'', s)
             else
               (let buffer' = take (offset - 1) buffer @ take n (drop argp arg);
                    s1 = setadd new_opt buffer' s
                in if Suc ptr < length arg then
                     (case addoptiter op s1 of
                        (new_opt', s2) \<Rightarrow>
                          (case slist_clone (set_list (chain s2 ! op)) s2 of
                             (l, s3) \<Rightarrow>
                               iterate_loop op arg buffer' offset (Suc ptr) argp' new_opt'
                                 (set_node new_opt' (\<lambda>x. x\<lparr>set_list := l\<rparr>) s3)))
                   else iterate_loop op arg buffer' offset (Suc ptr) argp' new_opt s1))
      else Inr s)"
  by pat_completeness auto
termination
  by (relation "measure (\<lambda>(op, arg, buffer, offset, ptr, argp, new_opt, s). length arg - ptr)") auto

declare iterate_loop.simps [simp del]

definition iterate :: "nat \<Rightarrow> string \<Rightarrow> state \<Rightarrow> (fault \<times> state) + state" where
  "iterate op arg s =
     (case iterate_prefix arg of
        (buffer, offset) \<Rightarrow>
          if offset = 0 \<or> length arg \<le> offset + 1
          then errorf ERROR_ITER (''Missing arguments for iterator '' @ arg) s
          else iterate_loop op arg buffer (offset + 1) (offset + 1) (offset + 1) op s)"

section \<open>The command line\<close>

definition show_version :: "'h env \<Rightarrow> state \<Rightarrow> (fault \<times> state) + 'a" where
  "show_version E s =
     Inl (Exit 0,
          fputs (PROGNAME @ '' version '' @ TRURL_VERSION_TXT E @ '' libcurl/'' @ curl_version E
                 @ [CHR 0x0A]) s)"

definition usage :: "string list" where
  "usage =
    [''Usage: '' @ PROGNAME @ '' [options] [URL]'',
     ''  -a, --append [component]=[data] - append data to component'',
     ''  --accept-space               - give in to this URL abuse'',
     ''  -f, --url-file [file/-]      - read URLs from file or stdin'',
     ''  -g, --get [{component}s]     - output component(s)'',
     ''  -h, --help                   - this help'',
     ''  --json                       - output URL as JSON'',
     ''  --redirect [URL]             - redirect to this'',
     ''  -s, --set [component]=[data] - set component content'',
     ''  --trim [component]=[what]    - trim component'',
     ''  --url [URL]                  - URL to work with'',
     ''  -v, --version                - show version'',
     ''  --verify                     - return error on (first) bad URL'',
     '' URL COMPONENTS:'']"

fun help_components :: "nat \<Rightarrow> (string \<times> CURLUPart) list \<Rightarrow> string" where
  "help_components i [] = []"
| "help_components i ((name, part) # vs) =
     (if i \<noteq> 0 then '', '' else []) @ name @ help_components (Suc i) vs"

definition help' :: "state \<Rightarrow> (fault \<times> state) + 'a" where
  "help' s =
     Inl (Exit 1,
          eputs (concat (map (\<lambda>l. l @ [CHR 0x0A]) usage) @ ''  ''
                 @ help_components 0 (take NUM_COMPONENTS variables) @ [CHR 0x0A]) s)"

definition getarg ::
  "'h env \<Rightarrow> nat \<Rightarrow> string \<Rightarrow> string option \<Rightarrow> state \<Rightarrow> (fault \<times> state) + (int \<times> bool \<times> state)" where
  "getarg E op flag arg s =
    (let do_urlfile = (\<lambda>a. case urlfile E op a s of Inl e \<Rightarrow> Inl e | Inr s' \<Rightarrow> Inr (0, True, s'));
         do_append = (\<lambda>a. case appendadd E op a s of Inl e \<Rightarrow> Inl e | Inr s' \<Rightarrow> Inr (0, True, s'));
         do_set = (\<lambda>a. Inr (0, True, setadd op a s));
         do_get = (\<lambda>a. if format (chain s ! op) \<noteq> None
                        then errorf ERROR_FLAG ''only one --get is supported'' s
                        else Inr (0, True, set_node op (\<lambda>x. x\<lparr>format := Some a\<rparr>) s))
     in
     if flag = ''-v'' \<or> flag = ''--version'' then show_version E s
     else if flag = ''-h'' \<or> flag = ''--help'' then help' s
     else
     checkoptarg ''--url'' flag arg s (\<lambda>a. Inr (0, True, urladd op a s)) (
     checkoptarg ''-f'' flag arg s do_urlfile (
     checkoptarg ''--url-file'' flag arg s do_urlfile (
     checkoptarg ''-a'' flag arg s do_append (
     checkoptarg ''--append'' flag arg s do_append (
     checkoptarg ''-s'' flag arg s do_set (
     checkoptarg ''--set'' flag arg s do_set (
     checkoptarg ''--redirect'' flag arg s
       (\<lambda>a. if redirect (chain s ! op) \<noteq> None
             then errorf ERROR_FLAG ''only one --redirect is supported'' s
             else Inr (0, True, set_node op (\<lambda>x. x\<lparr>redirect := Some a\<rparr>) s)) (
     checkoptarg ''--trim'' flag arg s (\<lambda>a. Inr (0, True, trimadd op a s)) (
     checkoptarg ''-g'' flag arg s do_get (
     checkoptarg ''--get'' flag arg s do_get (
     if flag = ''--json'' then Inr (0, False, set_node op (\<lambda>x. x\<lparr>jsonout := True\<rparr>) s)
     else
     checkoptarg ''--iterate'' flag arg s
       (\<lambda>a. if Suc op < length (chain s)
             then errorf ERROR_ITER ''only one --iterate is supported'' s
             else (case iterate op a s of Inl e \<Rightarrow> Inl e | Inr s' \<Rightarrow> Inr (0, True, s'))) (
     if flag = ''--verify'' then Inr (0, False, set_node op (\<lambda>x. x\<lparr>verify := True\<rparr>) s)
     else if flag = ''--accept-space''
     then Inr (0, False, set_node op (\<lambda>x. x\<lparr>accept_space := True\<rparr>) s)
     else Inr (1, False, s))))))))))))))"

section \<open>The main program\<close>

text \<open>\<open>cnth str i\<close> is \<^verbatim>\<open>str[i]\<close> for \<open>i\<close> up to the terminator.\<close>

definition cnth :: "string \<Rightarrow> nat \<Rightarrow> char" where
  "cnth str i = (if i < length str then str ! i else CHR 0x00)"

text \<open>
  The argument loop of \<^verbatim>\<open>main\<close> over the arguments after the program name;
  \<^verbatim>\<open>argv[1]\<close> is NULL behind the last argument.
\<close>

function main_args :: "'h env \<Rightarrow> string list \<Rightarrow> state \<Rightarrow> (fault \<times> state) + state" where
  "main_args E [] s = Inr s"
| "main_args E (a # argv) s =
     (if (cnth a 0 = CHR ''-'' \<and> cnth a 1 \<noteq> CHR ''-'') \<or> (cnth a 0 = CHR ''-'' \<and> cnth a 1 = CHR ''-'')
      then (case getarg E 0 a (case argv of [] \<Rightarrow> None | x # xs \<Rightarrow> Some x) s of
              Inl e \<Rightarrow> Inl e
            | Inr (rv, usedarg, s') \<Rightarrow>
                if rv \<noteq> 0 then errorf ERROR_FLAG (''unknown option: '' @ a) s'
                else main_args E (if usedarg then drop 1 argv else argv) s')
      else main_args E argv (urladd 0 a s))"
  by pat_completeness auto
termination
  by (relation "measure (\<lambda>(E, argv, s). length argv)") auto

text \<open>
  The inner loops over the options of the chain call \<^verbatim>\<open>singleurl\<close> for the options
  at the indices \<open>opts\<close> in turn; the chain is not relinked while URLs are processed.
\<close>

fun variants_loop :: "'h env \<Rightarrow> nat list \<Rightarrow> string option \<Rightarrow> state \<Rightarrow> (fault \<times> state) + state" where
  "variants_loop E [] urlp s = Inr s"
| "variants_loop E (opt # opts) urlp s =
     (case singleurl E opt urlp s of
        Inl e \<Rightarrow> Inl e
      | Inr s' \<Rightarrow> variants_loop E opts urlp s')"

text \<open>
  \<^verbatim>\<open>fgets(buffer, n, f)\<close> on the text \<open>f\<close> still to be read: the line read and the
  rest, \<open>None\<close> at the end of the file.
\<close>

definition fgets :: "nat \<Rightarrow> string \<Rightarrow> (string \<times> string) option" where
  "fgets n f =
     (if f = [] then None
      else (let k = (case strchr f (CHR 0x0A) of None \<Rightarrow> length f | Some i \<Rightarrow> i + 1);
                m = min k (n - 1)
            in Some (take m f, drop m f)))"

text \<open>
  Reading URLs from a file: \<^verbatim>\<open>while(opt->iterate != NULL)\<close> visits every option of
  the chain that has a successor.
\<close>

function main_file :: "'h env \<Rightarrow> string \<Rightarrow> state \<Rightarrow> (fault \<times> state) + state" where
  "main_file E f s =
     (case fgets 4096 f of
        None \<Rightarrow> Inr s
      | Some (buffer, f') \<Rightarrow>
          (case strchr buffer (CHR 0x0A) of
             None \<Rightarrow> main_file E f' s
           | Some eol \<Rightarrow>
               if 0 < eol then
                 (case variants_loop E [0..<length (chain s) - 1]
                         (Some (take (if buffer ! (eol - 1) = CHR 0x0D then eol - 1 else eol) buffer)) s of
                    Inl e \<Rightarrow> Inl e
                  | Inr s' \<Rightarrow> main_file E f' s')
               else main_file E f' s))"
  by pat_completeness auto
termination
  by (relation "measure (\<lambda>(E, f, s). length f)")
     (auto simp: fgets_def Let_def split: if_splits option.splits)

declare main_file.simps [simp del]

text \<open>
  URLs from the command line: \<^verbatim>\<open>while(opt)\<close> visits every option of the chain, once
  with a NULL URL when no URL was given.
\<close>

fun main_urls :: "'h env \<Rightarrow> string list \<Rightarrow> state \<Rightarrow> (fault \<times> state) + state" where
  "main_urls E [] s = Inr s"
| "main_urls E (u # nodes) s =
     (case variants_loop E [0..<length (chain s)] (Some u) s of
        Inl e \<Rightarrow> Inl e
      | Inr s' \<Rightarrow> main_urls E nodes s')"

definition option_zero :: option_t where
  "option_zero =
     \<lparr>url_list = None, append_path = None, append_query = None, set_list = None,
      trim_list = None, redirect = None, format = None, url = None, urlopen = False,
      jsonout = False, verify = False, accept_space = False, output_mode = 0, urls = 0\<rparr>"

definition state_zero :: state where
  "state_zero =
     \<lparr>chain = [option_zero], slists = (\<lambda>a. []), next_slist = 0, qpairs = [], out = [], err = []\<rparr>"

text \<open>
  \<^verbatim>\<open>main\<close>: the exit status and the final state. \<^verbatim>\<open>optcleanup(o.iterate)\<close> reads
  \<^verbatim>\<open>o->iterate\<close> of its argument, which is NULL when the chain is \<^verbatim>\<open>o\<close> alone.
\<close>

definition main :: "'h env \<Rightarrow> string list \<Rightarrow> (fault \<times> state) + (int \<times> state)" where
  "main E argv =
     (case main_args E (drop 1 argv) state_zero of
        Inl e \<Rightarrow> Inl e
      | Inr s1 \<Rightarrow>
          (let s2 = (if jsonout (chain s1 ! 0) then fputs (''['' @ [CHR 0x0A]) s1 else s1)
           in case (case url (chain s2 ! 0) of
                      Some f \<Rightarrow> main_file E f s2
                    | None \<Rightarrow>
                        (case slist_data s2 (url_list (chain s2 ! 0)) of
                           [] \<Rightarrow> variants_loop E [0..<length (chain s2)] None s2
                         | u # nodes \<Rightarrow> main_urls E (u # nodes) s2)) of
                Inl e \<Rightarrow> Inl e
              | Inr s3 \<Rightarrow>
                  (let s4 = (if jsonout (chain s3 ! 0)
                             then fputs ([CHR 0x0A] @ '']'' @ [CHR 0x0A]) s3 else s3)
                   in if length (chain s4) \<le> 1
                      then Inl (Undefined ''optcleanup(NULL) reads o->iterate'', s4)
                      else Inr (0, s4))))"

section \<open>Reference definitions\<close>

text \<open>
  The notions the properties are stated with. \<open>split_amp\<close> splits a string at every
  \<^verbatim>\<open>&\<close> (a string with \<open>n\<close> separators has \<open>n + 1\<close> substrings, empty ones included),
  \<open>join_amp\<close> joins strings with \<^verbatim>\<open>&\<close>. \<open>amp_pairs\<close> are the \<^verbatim>\<open>&\<close>-delimited pairs of
  a query: its substrings, without the empty one behind a trailing \<^verbatim>\<open>&\<close> (and none
  for the empty query).
\<close>

fun split_amp :: "string \<Rightarrow> string list" where
  "split_amp [] = [[]]"
| "split_amp (c # cs) =
     (if c = CHR ''&'' then [] # split_amp cs
      else (c # hd (split_amp cs)) # tl (split_amp cs))"

fun join_amp :: "string list \<Rightarrow> string" where
  "join_amp [] = []"
| "join_amp [p] = p"
| "join_amp (p # q # ps) = p @ ''&'' @ join_amp (q # ps)"

definition amp_pairs :: "string \<Rightarrow> string list" where
  "amp_pairs q = (if last (split_amp q) = [] then butlast (split_amp q) else split_amp q)"

text \<open>
  The key of a stored pair is its text before the first \<^verbatim>\<open>=\<close> (all of it without
  one). \<open>trim_matches pat k\<close>: the pattern of a trim directive matches the key \<open>k\<close>,
  letters compared without case.
\<close>

definition qkey :: "string \<Rightarrow> string" where
  "qkey q = takeWhile (\<lambda>c. c \<noteq> CHR ''='') q"

definition trim_matches :: "string \<Rightarrow> string \<Rightarrow> bool" where
  "trim_matches pat k =
     (if pat \<noteq> [] \<and> last pat = CHR ''*''
      then length pat - 1 \<le> length k
           \<and> map tolower (take (length pat - 1) k) = map tolower (butlast pat)
      else length k = length pat \<and> map tolower k = map tolower pat)"

text \<open>
  An engine to instantiate the parameters with: a handle is the store of its
  components, \<open>store_parse\<close> reads \<^verbatim>\<open>scheme://host/path?query\<close>, every other component
  is set and read as it is.
\<close>

type_synonym store = "CURLUPart \<Rightarrow> string option"

definition store_parse :: "string \<Rightarrow> store option" where
  "store_parse u =
     (case strchr u (CHR '':'') of
        None \<Rightarrow> None
      | Some i \<Rightarrow>
          if take 3 (drop i u) = ''://'' then
            (let rest = drop (i + 3) u;
                 host = takeWhile (\<lambda>c. c \<noteq> CHR ''/'' \<and> c \<noteq> CHR ''?'') rest;
                 after = dropWhile (\<lambda>c. c \<noteq> CHR ''/'' \<and> c \<noteq> CHR ''?'') rest;
                 path = takeWhile (\<lambda>c. c \<noteq> CHR ''?'') after;
                 q = dropWhile (\<lambda>c. c \<noteq> CHR ''?'') after
             in Some ((\<lambda>p. None)
                  (CURLUPART_SCHEME := Some (take i u),
                   CURLUPART_HOST := Some host,
                   CURLUPART_PATH := Some (if path = [] then ''/'' else path),
                   CURLUPART_QUERY := (if q = [] then None else Some (drop 1 q)))))
          else None)"

definition store_set :: "store \<Rightarrow> CURLUPart \<Rightarrow> string option \<Rightarrow> CURLUflag set \<Rightarrow> CURLUcode \<times> store" where
  "store_set h part v fl =
     (if part = CURLUPART_URL then
        (case v of
           None \<Rightarrow> (CURLUE_OK, (\<lambda>p. None))
         | Some u \<Rightarrow>
             (case store_parse u of None \<Rightarrow> (CURLUE_OTHER 3, h) | Some h' \<Rightarrow> (CURLUE_OK, h')))
      else (CURLUE_OK, h(part := v)))"

definition store_absent :: "CURLUPart \<Rightarrow> CURLUcode" where
  "store_absent part =
     (if part = CURLUPART_SCHEME then CURLUE_NO_SCHEME
      else if part = CURLUPART_USER then CURLUE_NO_USER
      else if part = CURLUPART_PASSWORD then CURLUE_NO_PASSWORD
      else if part = CURLUPART_OPTIONS then CURLUE_NO_OPTIONS
      else if part = CURLUPART_HOST then CURLUE_NO_HOST
      else if part = CURLUPART_PORT then CURLUE_NO_PORT
      else if part = CURLUPART_QUERY then CURLUE_NO_QUERY
      else if part = CURLUPART_FRAGMENT then CURLUE_NO_FRAGMENT
      else if part = CURLUPART_ZONEID then CURLUE_NO_ZONEID
      else CURLUE_OTHER 1)"

definition store_get :: "store \<Rightarrow> CURLUPart \<Rightarrow> CURLUflag set \<Rightarrow> CURLUcode \<times> string" where
  "store_get h part fl =
     (if part = CURLUPART_URL then
        (case (h CURLUPART_SCHEME, h CURLUPART_HOST) of
           (Some sc, Some ho) \<Rightarrow>
             (CURLUE_OK,
              sc @ ''://'' @ ho @ (case h CURLUPART_PATH of None \<Rightarrow> ''/'' | Some p \<Rightarrow> p)
              @ (case h CURLUPART_QUERY of None \<Rightarrow> [] | Some q \<Rightarrow> ''?'' @ q))
         | _ \<Rightarrow> (CURLUE_NO_HOST, []))
      else (case h part of Some v \<Rightarrow> (CURLUE_OK, v) | None \<Rightarrow> (store_absent part, [])))"

definition store_engine :: "(string \<Rightarrow> string option) \<Rightarrow> store env" where
  "store_engine files =
     \<lparr>curl_url = (\<lambda>p. None), curl_url_set = store_set, curl_url_get = store_get,
      curl_url_strerror = (\<lambda>c. ''Malformed input to a URL function''),
      curl_easy_escape = (\<lambda>str. str), curl_version = ''8.0.0'', TRURL_VERSION_TXT = ''0.1'',
      fopen = files, stdin = []\<rparr>"

text \<open>
  A well-formed \<^verbatim>\<open>--set\<close> directive: a component name, a \<^verbatim>\<open>:\<close> behind it when the
  value is not to be encoded, \<^verbatim>\<open>=\<close>, and the value (empty to clear the component).
  \<open>set_directive\<close> reads the component (named without regard to case), the value and
  whether to encode; \<open>apply_set_directive\<close> is the call to the engine that the
  directive stands for, of which only the handle is kept.
\<close>

definition set_directive :: "string \<Rightarrow> (CURLUPart \<times> string option \<times> bool) option" where
  "set_directive d =
     (case strchr d (CHR ''='') of
        None \<Rightarrow> None
      | Some p \<Rightarrow>
          if p = 0 then None
          else (let enc = (d ! (p - 1) \<noteq> CHR '':'');
                    name = take (if enc then p else p - 1) d
                in case find (\<lambda>(n, part). map tolower n = map tolower name) variables of
                     None \<Rightarrow> None
                   | Some (n, part) \<Rightarrow>
                       Some (part, if drop (p + 1) d = [] then None else Some (drop (p + 1) d), enc)))"

definition apply_set_directive :: "'h env \<Rightarrow> 'h \<Rightarrow> string \<Rightarrow> 'h" where
  "apply_set_directive E uh d =
     (case set_directive d of
        None \<Rightarrow> uh
      | Some (part, v, enc) \<Rightarrow>
          snd (curl_url_set E uh part v
                 ({CURLU_NON_SUPPORT_SCHEME} \<union> (if enc then {CURLU_URLENCODE} else {}))))"

section \<open>Properties: C strings and splitting\<close>

lemma strchr_None: "strchr p c = None \<longleftrightarrow> c \<notin> set p"
  by (induction p) auto

lemma strchr_Some: "strchr p c = Some i \<Longrightarrow> i < length p \<and> p ! i = c \<and> c \<notin> set (take i p)"
  by (induction p arbitrary: i) (auto split: if_splits)

lemma strchr_takeWhile: "strchr p c = Some i \<Longrightarrow> takeWhile (\<lambda>x. x \<noteq> c) p = take i p"
  by (induction p arbitrary: i) (auto split: if_splits)

lemma split_amp_nonempty: "split_amp p \<noteq> []"
  by (induction p) auto

lemma split_amp_no_amp: "CHR ''&'' \<notin> set p \<Longrightarrow> split_amp p = [p]"
  by (induction p) auto

lemma split_amp_at:
  "strchr p (CHR ''&'') = Some a \<Longrightarrow> split_amp p = take a p # split_amp (drop (a + 1) p)"
proof (induction p arbitrary: a)
  case Nil
  then show ?case by simp
next
  case (Cons c cs)
  show ?case
  proof (cases "c = CHR ''&''")
    case True
    with Cons.prems show ?thesis by simp
  next
    case False
    with Cons.prems obtain b where b: "strchr cs (CHR ''&'') = Some b" "a = Suc b"
      by auto
    from Cons.IH[OF b(1)] False b(2) show ?thesis by simp
  qed
qed

lemma amp_pairs_Nil: "amp_pairs [] = []"
  by (simp add: amp_pairs_def)

lemma amp_pairs_no_amp: "p \<noteq> [] \<Longrightarrow> strchr p (CHR ''&'') = None \<Longrightarrow> amp_pairs p = [p]"
  by (simp add: amp_pairs_def strchr_None split_amp_no_amp)

lemma amp_pairs_at:
  "strchr p (CHR ''&'') = Some a \<Longrightarrow> amp_pairs p = take a p # amp_pairs (drop (a + 1) p)"
  using split_amp_nonempty[of "drop (a + 1) p"]
  by (simp add: amp_pairs_def split_amp_at)

lemma split_amp_hd_no_amp: "CHR ''&'' \<notin> set (hd (split_amp q))"
  by (induction q) auto

lemma split_amp_append:
  "CHR ''&'' \<notin> set p \<Longrightarrow> split_amp (p @ CHR ''&'' # r) = p # split_amp r"
  by (induction p) auto

lemma split_join_amp:
  "ps \<noteq> [] \<Longrightarrow> list_all (\<lambda>p. CHR ''&'' \<notin> set p) ps \<Longrightarrow> split_amp (join_amp ps) = ps"
proof (induction ps rule: join_amp.induct)
  case 1
  then show ?case by simp
next
  case (2 p)
  then show ?case by (simp add: split_amp_no_amp)
next
  case (3 p q ps)
  then show ?case by (simp add: split_amp_append)
qed

lemma split_amp_replicate:
  "split_amp (join_amp (replicate (Suc n) ''a'')) = replicate (Suc n) ''a''"
  by (rule split_join_amp) (simp_all add: list_all_iff)

lemma amp_pairs_replicate:
  "amp_pairs (join_amp (replicate (Suc n) ''a'')) = replicate (Suc n) ''a''"
  by (simp only: amp_pairs_def split_amp_replicate) simp

section \<open>Properties: the query pair store\<close>

lemma addqpair_take: "a \<le> length p \<Longrightarrow> addqpair p a s = addqpair (take a p) (length (take a p)) s"
  by (simp add: addqpair_def memdupzero_def)

lemma extractqpairs_loop_pairs: "extractqpairs_loop p s = fold (\<lambda>d. addqpair d (length d)) (amp_pairs p) s"
proof (induction p s rule: extractqpairs_loop.induct)
  case (1 p s)
  show ?case
  proof (cases "p = []")
    case True
    then show ?thesis by (subst extractqpairs_loop.simps) (simp add: amp_pairs_Nil)
  next
    case False
    show ?thesis
    proof (cases "strchr p (CHR ''&'')")
      case None
      with False show ?thesis by (subst extractqpairs_loop.simps) (simp add: amp_pairs_no_amp)
    next
      case (Some a)
      then have "a \<le> length p" using strchr_Some[OF Some] by simp
      with "1.IH"[OF False Some] False Some show ?thesis
        by (subst extractqpairs_loop.simps) (simp add: amp_pairs_at addqpair_take[of a p])
    qed
  qed
qed

lemma addqpair_qpairs:
  "qpairs (addqpair p n s) = (if length (qpairs s) < MAX_QPAIRS then qpairs s @ [take n p] else qpairs s)"
  by (simp add: addqpair_def nqpairs_def memdupzero_def warnf_def eputs_def)

lemma addqpair_err:
  "err (addqpair p n s) = (if length (qpairs s) < MAX_QPAIRS then err s
     else err s @ WARN_PREFIX @ ''too many query pairs'' @ [CHR 0x0A])"
  by (simp add: addqpair_def nqpairs_def memdupzero_def warnf_def eputs_def)

lemma fold_addqpair_qpairs:
  "qpairs (fold (\<lambda>d. addqpair d (length d)) ps s) = qpairs s @ take (MAX_QPAIRS - length (qpairs s)) ps"
proof (induction ps arbitrary: s)
  case Nil
  then show ?case by simp
next
  case (Cons p ps)
  show ?case
  proof (cases "length (qpairs s) < MAX_QPAIRS")
    case True
    then have "MAX_QPAIRS - length (qpairs s) = Suc (MAX_QPAIRS - Suc (length (qpairs s)))" by simp
    with True show ?thesis
      by (simp add: Cons.IH addqpair_qpairs)
  next
    case False
    then show ?thesis
      by (simp add: Cons.IH addqpair_qpairs)
  qed
qed

lemma fold_addqpair_err:
  "err (fold (\<lambda>d. addqpair d (length d)) ps s)
   = err s @ concat (replicate (length ps - (MAX_QPAIRS - length (qpairs s)))
                       (WARN_PREFIX @ ''too many query pairs'' @ [CHR 0x0A]))"
proof (induction ps arbitrary: s)
  case Nil
  then show ?case by simp
next
  case (Cons p ps)
  show ?case
  proof (cases "length (qpairs s) < MAX_QPAIRS")
    case True
    then have "Suc (length ps) - (MAX_QPAIRS - length (qpairs s)) = length ps - (MAX_QPAIRS - Suc (length (qpairs s)))"
      by simp
    with True show ?thesis
      by (simp add: Cons.IH addqpair_qpairs addqpair_err)
  next
    case False
    then have "Suc (length ps) - (MAX_QPAIRS - length (qpairs s)) = Suc (length ps - (MAX_QPAIRS - length (qpairs s)))"
      by simp
    with False show ?thesis
      by (simp add: Cons.IH addqpair_qpairs addqpair_err)
  qed
qed

lemma join_split_amp: "join_amp (split_amp q) = q"
proof (induction q)
  case Nil
  then show ?case by simp
next
  case (Cons c cs)
  obtain x xs where sp: "split_amp cs = x # xs"
    using split_amp_nonempty[of cs] by (cases "split_amp cs") auto
  with Cons show ?case by (cases xs) auto
qed

lemma join_amp_snoc:
  "join_amp (xs @ [p]) = (if xs = [] then p else join_amp xs @ ''&'' @ p)"
  by (induction xs rule: join_amp.induct) auto

lemma join_amp_empty: "[] \<notin> set xs \<Longrightarrow> join_amp xs = [] \<longleftrightarrow> xs = []"
  by (induction xs rule: join_amp.induct) auto

lemma qpair2query_nq_snoc:
  "qpair2query_nq (qs @ [p]) = qpair2query_step (qpair2query_nq qs) p"
  by (simp add: qpair2query_nq_def)

lemma qpair2query_nq_filter:
  "qpair2query_nq qs = (if qs = [] then None else Some (join_amp (filter (\<lambda>p. p \<noteq> []) qs)))"
proof (induction qs rule: rev_induct)
  case Nil
  then show ?case by (simp add: qpair2query_nq_def)
next
  case (snoc p qs)
  have ne: "[] \<notin> set (filter (\<lambda>p. p \<noteq> []) qs)" by simp
  show ?case
    using snoc join_amp_empty[OF ne]
    by (auto simp: qpair2query_nq_snoc qpair2query_step_def join_amp_snoc)
qed

lemma extractqpairs_ok:
  "curl_url_get E uh CURLUPART_QUERY {} = (CURLUE_OK, q) \<Longrightarrow>
   extractqpairs E uh s = fold (\<lambda>d. addqpair d (length d)) (amp_pairs q) (s\<lparr>qpairs := []\<rparr>)"
  by (simp add: extractqpairs_def extractqpairs_loop_pairs del: extractqpairs_loop.simps)

lemma extractqpairs_qpairs:
  "curl_url_get E uh CURLUPART_QUERY {} = (CURLUE_OK, q) \<Longrightarrow>
   qpairs (extractqpairs E uh s) = take MAX_QPAIRS (amp_pairs q)"
  by (simp only: extractqpairs_ok fold_addqpair_qpairs) simp

lemma extractqpairs_err:
  "curl_url_get E uh CURLUPART_QUERY {} = (CURLUE_OK, q) \<Longrightarrow>
   err (extractqpairs E uh s)
   = err s @ concat (replicate (length (amp_pairs q) - MAX_QPAIRS)
                       (WARN_PREFIX @ ''too many query pairs'' @ [CHR 0x0A]))"
  by (simp only: extractqpairs_ok fold_addqpair_err) simp

lemma store_get_query:
  "curl_url_get (store_engine f) ((\<lambda>p. None)(CURLUPART_QUERY := Some q)) CURLUPART_QUERY {} = (CURLUE_OK, q)"
  by (simp add: store_engine_def store_get_def)

lemma addqpair_frame [simp]:
  "chain (addqpair p n s) = chain s" "slists (addqpair p n s) = slists s"
  "out (addqpair p n s) = out s"
  by (simp_all add: addqpair_def warnf_def eputs_def)

lemma fold_addqpair_frame [simp]:
  "chain (fold (\<lambda>d. addqpair d (length d)) ps s) = chain s"
  "slists (fold (\<lambda>d. addqpair d (length d)) ps s) = slists s"
  "out (fold (\<lambda>d. addqpair d (length d)) ps s) = out s"
  by (induction ps arbitrary: s) simp_all

lemma extractqpairs_frame [simp]:
  "chain (extractqpairs E uh s) = chain s" "slists (extractqpairs E uh s) = slists s"
  "out (extractqpairs E uh s) = out s"
  by (simp_all add: extractqpairs_def extractqpairs_loop_pairs split: prod.splits)

lemma qpair2query_frame [simp]:
  "chain (snd (qpair2query E uh s)) = chain s" "slists (snd (qpair2query E uh s)) = slists s"
  "out (snd (qpair2query E uh s)) = out s" "qpairs (snd (qpair2query E uh s)) = qpairs s"
  by (simp_all add: qpair2query_def warnf_def eputs_def split: option.splits prod.splits)

lemma singleurl_query_returns:
  assumes "slist_data s (trim_list (chain s ! opt)) = []"
    and "jsonout (chain s ! opt) \<or> format (chain s ! opt) \<noteq> None"
  shows "\<exists>s'. singleurl_query E opt uh s = Inr s'"
  using assms
  by (auto simp: singleurl_query_def Let_def trim_def slist_data_def singleurl_output_def
           split: option.splits)

text \<open>
  Claim C4, as amended. \<^verbatim>\<open>extractqpairs\<close> splits the query the engine returns at every
  \<^verbatim>\<open>&\<close> and stores the substrings unchanged, in order, empty ones between two \<^verbatim>\<open>&\<close>
  included, up to the capacity of 1000 pairs; the empty substring behind a trailing
  \<^verbatim>\<open>&\<close> is not stored, since the loop ends where the rest of the query is empty.
\<close>

theorem extractqpairs_splits:
  assumes "curl_url_get E uh CURLUPART_QUERY {} = (CURLUE_OK, q)"
  shows "qpairs (extractqpairs E uh s)
         = take 1000 (if last (split_amp q) = [] then butlast (split_amp q) else split_amp q)"
  using assms
  by (simp add: extractqpairs_qpairs MAX_QPAIRS_def amp_pairs_def)

text \<open>The query \<^verbatim>\<open>a&&b=1&\<close> is stored as three pairs, the second one empty.\<close>

theorem extractqpairs_splits_witness:
  "qpairs (extractqpairs (store_engine (\<lambda>f. None)) ((\<lambda>p. None)(CURLUPART_QUERY := Some ''a&&b=1&'')) state_zero)
   = [''a'', [], ''b=1'']"
  using extractqpairs_splits[OF store_get_query, of "\<lambda>f. None" "''a&&b=1&''" state_zero]
  by simp

text \<open>
  Claim C4 as stated fails: the query \<^verbatim>\<open>a&\<close> ends in \<^verbatim>\<open>&\<close>, and the only pair stored
  is \<^verbatim>\<open>a\<close>; there is no final empty pair.
\<close>

theorem extractqpairs_trailing_amp_counterexample:
  "qpairs (extractqpairs (store_engine (\<lambda>f. None)) ((\<lambda>p. None)(CURLUPART_QUERY := Some ''a&'')) state_zero)
   = [''a'']"
  by (simp add: extractqpairs_qpairs[OF store_get_query] MAX_QPAIRS_def amp_pairs_def)

text \<open>
  Claim C3, as amended. For a query whose substrings between \<^verbatim>\<open>&\<close> are all non-empty
  (so it has no leading, doubled or trailing \<^verbatim>\<open>&\<close>) and number at most 1000, the
  string that \<^verbatim>\<open>qpair2query\<close> rebuilds from the pairs that \<^verbatim>\<open>extractqpairs\<close> stored is
  the query itself.
\<close>

theorem query_round_trip:
  assumes "[] \<notin> set (split_amp q)" and "length (split_amp q) \<le> 1000"
    and "curl_url_get E uh CURLUPART_QUERY {} = (CURLUE_OK, q)"
  shows "qpair2query_nq (qpairs (extractqpairs E uh s)) = Some q"
proof -
  have ne: "split_amp q \<noteq> []" by (rule split_amp_nonempty)
  then have "last (split_amp q) \<in> set (split_amp q)" by simp
  with assms(1) have "last (split_amp q) \<noteq> []" by metis
  then have ap: "amp_pairs q = split_amp q" by (simp add: amp_pairs_def)
  have "qpairs (extractqpairs E uh s) = split_amp q"
    using assms(2) by (simp add: extractqpairs_qpairs[OF assms(3)] ap MAX_QPAIRS_def)
  moreover have "filter (\<lambda>p. p \<noteq> []) (split_amp q) = split_amp q"
    using assms(1) by (simp add: filter_id_conv) metis
  ultimately show ?thesis
    using ne by (simp add: qpair2query_nq_filter join_split_amp)
qed

text \<open>The query \<^verbatim>\<open>a=1&b=&c\<close>, with an empty value, is rebuilt unchanged.\<close>

theorem query_round_trip_witness:
  "qpair2query_nq (qpairs (extractqpairs (store_engine (\<lambda>f. None))
      ((\<lambda>p. None)(CURLUPART_QUERY := Some ''a=1&b=&c'')) state_zero)) = Some ''a=1&b=&c''"
  by (rule query_round_trip[OF _ _ store_get_query]) simp_all

text \<open>
  Claim C3 as stated fails beyond the capacity: the query of 1001 pairs \<^verbatim>\<open>a\<close> has only
  non-empty pairs, and what is rebuilt is not the query (its last pair is missing).
\<close>

theorem query_round_trip_counterexample:
  "[] \<notin> set (split_amp (join_amp (replicate 1001 ''a'')))
   \<and> qpair2query_nq (qpairs (extractqpairs (store_engine (\<lambda>f. None))
        ((\<lambda>p. None)(CURLUPART_QUERY := Some (join_amp (replicate 1001 ''a'')))) state_zero))
     \<noteq> Some (join_amp (replicate 1001 ''a''))"
proof -
  let ?q = "join_amp (replicate 1001 ''a'')"
  have sp: "split_amp ?q = replicate 1001 ''a''"
    using split_amp_replicate[of 1000] by simp
  have ap: "amp_pairs ?q = replicate 1001 ''a''"
    by (simp add: amp_pairs_def sp)
  have st: "qpairs (extractqpairs (store_engine (\<lambda>f. None)) ((\<lambda>p. None)(CURLUPART_QUERY := Some ?q)) state_zero)
            = replicate 1000 ''a''"
    by (simp add: extractqpairs_qpairs[OF store_get_query] ap MAX_QPAIRS_def)
  have "join_amp (replicate 1000 ''a'') \<noteq> ?q"
  proof
    assume "join_amp (replicate 1000 ''a'') = ?q"
    then have "split_amp (join_amp (replicate 1000 ''a'')) = split_amp ?q" by simp
    then have "replicate 1000 ''a'' = replicate 1001 ''a''"
      using split_amp_replicate[of 999] sp by simp
    then have "length (replicate 1000 ''a'') = length (replicate 1001 ''a'')" by (rule arg_cong)
    then show False by simp
  qed
  then show ?thesis
    by (simp add: st sp qpair2query_nq_filter)
qed

text \<open>
  Claim C8. When the query the engine returns has more than 1000 pairs, exactly the
  first 1000 are stored, one warning line is written to stderr for every pair beyond
  them, the rebuilt query is the join of the non-empty pairs among the first 1000, and
  a pair added afterwards (an appended query pair) is dropped as well. Nothing here is
  fatal: with no trim directive and an output mode that cannot fail, the query part of
  \<^verbatim>\<open>singleurl\<close> returns.
\<close>

theorem qpairs_capacity:
  assumes "curl_url_get E uh CURLUPART_QUERY {} = (CURLUE_OK, q)" and "1000 < length (amp_pairs q)"
  shows "qpairs (extractqpairs E uh s) = take 1000 (amp_pairs q)
       \<and> nqpairs (extractqpairs E uh s) = 1000
       \<and> err (extractqpairs E uh s)
           = err s @ concat (replicate (length (amp_pairs q) - 1000)
                               (''trurl note: too many query pairs'' @ [CHR 0x0A]))
       \<and> qpair2query_nq (qpairs (extractqpairs E uh s))
           = Some (join_amp (filter (\<lambda>p. p \<noteq> []) (take 1000 (amp_pairs q))))
       \<and> qpairs (addqpair p n (extractqpairs E uh s)) = take 1000 (amp_pairs q)
       \<and> (slist_data s (trim_list (chain s ! opt)) = []
            \<and> (jsonout (chain s ! opt) \<or> format (chain s ! opt) \<noteq> None)
          \<longrightarrow> (\<exists>s'. singleurl_query E opt uh s = Inr s'))"
proof -
  have qp: "qpairs (extractqpairs E uh s) = take 1000 (amp_pairs q)"
    using assms(1) by (simp add: extractqpairs_qpairs MAX_QPAIRS_def)
  then have len: "length (qpairs (extractqpairs E uh s)) = 1000"
    using assms(2) by simp
  have er: "err (extractqpairs E uh s)
           = err s @ concat (replicate (length (amp_pairs q) - 1000)
                               (''trurl note: too many query pairs'' @ [CHR 0x0A]))"
    using assms(1) by (simp add: extractqpairs_err MAX_QPAIRS_def WARN_PREFIX_def PROGNAME_def)
  have ne: "take 1000 (amp_pairs q) \<noteq> []"
    using assms(2) by auto
  have nq: "qpair2query_nq (qpairs (extractqpairs E uh s))
           = Some (join_amp (filter (\<lambda>p. p \<noteq> []) (take 1000 (amp_pairs q))))"
    using ne by (simp add: qp qpair2query_nq_filter)
  have ad: "qpairs (addqpair p n (extractqpairs E uh s)) = take 1000 (amp_pairs q)"
    using len by (simp add: addqpair_qpairs MAX_QPAIRS_def qp)
  show ?thesis
    using qp len er nq ad singleurl_query_returns[of s opt E uh] by (simp add: nqpairs_def)
qed

text \<open>A query of 1001 pairs: 1000 are stored and one warning is written.\<close>

theorem qpairs_capacity_witness:
  "nqpairs (extractqpairs (store_engine (\<lambda>f. None))
      ((\<lambda>p. None)(CURLUPART_QUERY := Some (join_amp (replicate 1001 ''a'')))) state_zero) = 1000
   \<and> err (extractqpairs (store_engine (\<lambda>f. None))
      ((\<lambda>p. None)(CURLUPART_QUERY := Some (join_amp (replicate 1001 ''a'')))) state_zero)
     = ''trurl note: too many query pairs'' @ [CHR 0x0A]"
proof -
  have l: "1000 < length (amp_pairs (join_amp (replicate 1001 ''a'')))"
    using amp_pairs_replicate[of 1000] by simp
  have e: "length (amp_pairs (join_amp (replicate 1001 ''a''))) - 1000 = 1"
    using amp_pairs_replicate[of 1000] by simp
  show ?thesis
    using qpairs_capacity[OF store_get_query l, of "\<lambda>f. None" state_zero]
    by (simp add: e state_zero_def)
qed

section \<open>Properties: trimming\<close>

lemma strncasecmp_eq:
  "strncasecmp a b n = 0 \<longleftrightarrow> map tolower (take n a) = map tolower (take n b)"
  by (induction a b n rule: strncasecmp.induct) auto

lemma qlen_qkey:
  "(case strchr q (CHR ''='') of Some sep \<Rightarrow> sep | None \<Rightarrow> length q) = length (qkey q)"
proof (cases "strchr q (CHR ''='')")
  case None
  then have "CHR ''='' \<notin> set q" by (simp add: strchr_None)
  then have "takeWhile (\<lambda>c. c \<noteq> CHR ''='') q = q"
    by (induction q) auto
  with None show ?thesis by (simp add: qkey_def del: takeWhile_eq_all_conv)
next
  case (Some i)
  then show ?thesis
    using strchr_Some[OF Some] by (simp add: qkey_def strchr_takeWhile[OF Some])
qed

lemma qkey_take: "qkey q = take (length (qkey q)) q"
  unfolding qkey_def by (induction q) auto

lemma take_qkey: "n \<le> length (qkey q) \<Longrightarrow> take n q = take n (qkey q)"
proof -
  assume "n \<le> length (qkey q)"
  then have "take n (take (length (qkey q)) q) = take n q" by (simp add: min_def)
  then show ?thesis using qkey_take[of q] by simp
qed

lemma trim_qpair_pattern:
  "pat \<noteq> [] \<Longrightarrow> last pat = CHR ''*'' \<Longrightarrow>
   trim_qpair pat (length pat - 1) True q = (if trim_matches pat (qkey q) then [] else q)"
  by (auto simp: trim_qpair_def qlen_qkey strncasecmp_eq trim_matches_def take_qkey butlast_conv_take)

lemma trim_qpair_exact:
  "\<not> (pat \<noteq> [] \<and> last pat = CHR ''*'') \<Longrightarrow>
   trim_qpair pat (length pat) False q = (if trim_matches pat (qkey q) then [] else q)"
  using qkey_take[of q]
  by (auto simp: trim_qpair_def qlen_qkey strncasecmp_eq trim_matches_def)

text \<open>
  Claim C5. For a directive that names the query and has its first \<^verbatim>\<open>=\<close> at index
  \<open>eq\<close>, the pattern is the text behind that \<^verbatim>\<open>=\<close>. One pass of \<^verbatim>\<open>trim\<close> replaces
  every stored pair whose key matches the pattern by the empty string and leaves every
  other pair as it is, where a pattern ending in \<^verbatim>\<open>*\<close> matches the keys of length at
  least the pattern's length minus one that start with the pattern without its \<^verbatim>\<open>*\<close>,
  any other pattern matches the keys of its own length equal to it, and letters are
  compared without case (\<open>trim_matches\<close>).
\<close>

theorem trim_instr_matches:
  assumes "strncasecmp instr ''query'' 5 = 0" and "strchr instr (CHR ''='') = Some eq"
  shows "trim_instr instr s
         = Inr (s\<lparr>qpairs := map (\<lambda>q. if trim_matches (drop (eq + 1) instr) (qkey q) then [] else q)
                                (qpairs s)\<rparr>)"
proof -
  define pat where "pat = drop (eq + 1) instr"
  have "map tolower (take 5 instr) = map tolower ''query''"
    using assms(1) by (simp add: strncasecmp_eq)
  then have "instr \<noteq> [] \<and> hd instr \<noteq> CHR ''=''"
    by (cases instr) (auto simp: tolower_def)
  then have pos: "0 < eq"
    using assms(2) by (cases instr) (auto split: if_splits)
  have unf: "trim_instr instr s =
     (let inslen = length pat;
          pattern = ((if inslen = 0 then CHR ''='' else pat ! (inslen - 1)) = CHR ''*'');
          inslen = (if pattern then inslen - 1 else inslen)
      in Inr (s\<lparr>qpairs := map (trim_qpair pat inslen pattern) (qpairs s)\<rparr>))"
    using assms pos by (simp add: trim_instr_def pat_def Let_def)
  have "trim_instr instr s
        = Inr (s\<lparr>qpairs := map (\<lambda>q. if trim_matches pat (qkey q) then [] else q) (qpairs s)\<rparr>)"
  proof (cases "pat \<noteq> [] \<and> last pat = CHR ''*''")
    case True
    then have star: "pat ! (length pat - 1) = CHR ''*''"
      using last_conv_nth[of pat] by simp
    have "trim_qpair pat (length pat - 1) True = (\<lambda>q. if trim_matches pat (qkey q) then [] else q)"
      using True trim_qpair_pattern[of pat] by (intro ext) simp
    with True star show ?thesis
      by (simp add: unf Let_def)
  next
    case False
    then have nostar: "(if length pat = 0 then CHR ''='' else pat ! (length pat - 1)) \<noteq> CHR ''*''"
      by (auto simp: last_conv_nth)
    have "trim_qpair pat (length pat) False = (\<lambda>q. if trim_matches pat (qkey q) then [] else q)"
      using trim_qpair_exact[OF False] by (intro ext) simp
    with nostar show ?thesis
      by (simp add: unf Let_def)
  qed
  then show ?thesis by (simp add: pat_def)
qed

text \<open>
  The directive \<^verbatim>\<open>query=utm_*\<close> removes \<^verbatim>\<open>UTM_source=x\<close> and \<^verbatim>\<open>utm_\<close>, and keeps the key
  \<^verbatim>\<open>utm\<close>, which is too short, and \<^verbatim>\<open>b=utm_x\<close>, whose key is \<^verbatim>\<open>b\<close>.
\<close>

theorem trim_instr_matches_witness:
  "trim_instr ''query=utm_*'' (state_zero\<lparr>qpairs := [''a=1'', ''UTM_source=x'', ''utm'', ''utm_'', ''b=utm_x'']\<rparr>)
   = Inr (state_zero\<lparr>qpairs := [''a=1'', [], ''utm'', [], ''b=utm_x'']\<rparr>)"
  using trim_instr_matches[of "''query=utm_*''" 5 "state_zero\<lparr>qpairs := [''a=1'', ''UTM_source=x'', ''utm'', ''utm_'', ''b=utm_x'']\<rparr>"]
  by (simp add: trim_matches_def qkey_def tolower_def strncasecmp_eq)

section \<open>Properties: the output format\<close>

text \<open>
  Claim C7. A \<^verbatim>\<open>{{\<close> writes one \<^verbatim>\<open>{\<close> and rendering goes on behind the two characters,
  whatever follows; no \<^verbatim>\<open>}}\<close> is looked for. So the format \<^verbatim>\<open>{{id}}\<close> writes
  \<^verbatim>\<open>{id}}\<close> and the final newline to stdout, and nothing to stderr.
\<close>

theorem get_escaped_brace:
  "get_loop E uh (CHR ''{'' # CHR ''{'' # rest) s = get_loop E uh rest (fputc (CHR ''{'') s)
   \<and> (format (chain s ! op) = Some ''{{id}}''
        \<longrightarrow> out (get E op uh s) = out s @ ''{id}}'' @ [CHR 0x0A] \<and> err (get E op uh s) = err s)"
  by (simp add: get_def fputc_def)

text \<open>With no URL component set at all, the format \<^verbatim>\<open>{{id}}\<close> prints \<^verbatim>\<open>{id}}\<close> and a newline.\<close>

theorem get_escaped_brace_witness:
  "out (get (store_engine (\<lambda>f. None)) 0 (\<lambda>p. None)
          (state_zero\<lparr>chain := [option_zero\<lparr>format := Some ''{{id}}''\<rparr>]\<rparr>))
   = ''{id}}'' @ [CHR 0x0A]"
  using get_escaped_brace[of "store_engine (\<lambda>f. None)" "\<lambda>p. None" "[]"
                  "state_zero\<lparr>chain := [option_zero\<lparr>format := Some ''{{id}}''\<rparr>]\<rparr>" 0]
  by (simp add: state_zero_def)

lemma strchr_not_in: "c \<notin> set p \<Longrightarrow> strchr p c = None"
  by (simp add: strchr_None)

text \<open>
  Claim C6, as amended. A \<^verbatim>\<open>{\<close> that is not followed by another \<^verbatim>\<open>{\<close> and has no
  \<^verbatim>\<open>}\<close> anywhere behind it is skipped: nothing is written for it, and rendering
  continues with the characters behind it as if it were not there.
\<close>

theorem get_unclosed_brace:
  assumes "CHR ''}'' \<notin> set rest" and "rest = [] \<or> hd rest \<noteq> CHR ''{''"
  shows "get_loop E uh (CHR ''{'' # rest) s = get_loop E uh rest s"
  using assms by (auto simp: strchr_not_in)

text \<open>The format \<^verbatim>\<open>{host\<close> writes \<^verbatim>\<open>host\<close>.\<close>

theorem get_unclosed_brace_witness:
  "out (get_loop (store_engine (\<lambda>f. None)) (\<lambda>p. None) ''{host'' state_zero) = ''host''"
  using get_unclosed_brace[of "''host''" "store_engine (\<lambda>f. None)" "\<lambda>p. None" state_zero]
  by (simp add: state_zero_def fputc_def)

text \<open>
  Claim C6 as stated fails: for the format \<^verbatim>\<open>x{yz\<close> the output is \<^verbatim>\<open>xyz\<close> and the
  newline, so the characters behind the unclosed \<^verbatim>\<open>{\<close> are written.
\<close>

theorem get_unclosed_brace_counterexample:
  "out (get (store_engine (\<lambda>f. None)) 0 (\<lambda>p. None)
          (state_zero\<lparr>chain := [option_zero\<lparr>format := Some ''x{yz''\<rparr>]\<rparr>))
   = ''xyz'' @ [CHR 0x0A]"
  by (simp add: get_def state_zero_def fputc_def)

section \<open>Properties: setting components\<close>

lemma set_vars_find:
  "\<exists>vs'. set_vars E uh (Some i) d ptr vlen enc varset k vars s
     = (case find (\<lambda>(n, part). length n = vlen \<and> strncasecmp d n vlen = 0) vars of
          None \<Rightarrow> Inr (uh, vs', False)
        | Some (n, part) \<Rightarrow>
            Inr (snd (curl_url_set E uh part
                        (if drop (ptr + 1) d \<noteq> [] then Some (drop (ptr + 1) d) else None)
                        ({CURLU_NON_SUPPORT_SCHEME} \<union> (if enc then {CURLU_URLENCODE} else {}))),
                 vs', True))"
proof (induction vars arbitrary: k)
  case Nil
  then show ?case by simp
next
  case (Cons v vars)
  obtain n part where v: "v = (n, part)" by (cases v)
  show ?case
    using Cons[of "Suc k"] by (auto simp: v split: prod.splits)
qed

lemma name_match:
  "vlen \<le> length d \<Longrightarrow>
   (length n = vlen \<and> strncasecmp d n vlen = 0) \<longleftrightarrow> map tolower n = map tolower (take vlen d)"
proof
  assume "length n = vlen \<and> strncasecmp d n vlen = 0"
  then show "map tolower n = map tolower (take vlen d)"
    by (simp add: strncasecmp_eq)
next
  assume le: "vlen \<le> length d" and eq: "map tolower n = map tolower (take vlen d)"
  from eq have "length (map tolower n) = length (map tolower (take vlen d))" by (rule arg_cong)
  with le have "length n = vlen" by simp
  with eq show "length n = vlen \<and> strncasecmp d n vlen = 0"
    by (simp add: strncasecmp_eq)
qed

lemma set_loop_step:
  assumes "set_directive d \<noteq> None"
  shows "\<exists>vs'. set_loop E uh (Some i) (d # ds) varset s
               = set_loop E (apply_set_directive E uh d) (Some i) ds vs' s"
proof -
  from assms obtain p where p: "strchr d (CHR ''='') = Some p" "0 < p"
    by (auto simp: set_directive_def split: option.splits if_splits)
  define enc where "enc = (d ! (p - 1) \<noteq> CHR '':'')"
  define vlen where "vlen = (if enc then p else p - 1)"
  have "p < length d" using strchr_Some[OF p(1)] by simp
  then have le: "vlen \<le> length d" by (auto simp: vlen_def)
  have pred: "(\<lambda>(n, part). length n = vlen \<and> strncasecmp d n vlen = 0)
            = (\<lambda>(n, part :: CURLUPart). map tolower n = map tolower (take vlen d))"
    using name_match[OF le] by (intro ext) auto
  from assms p obtain n part where
    f: "find (\<lambda>(n, part). map tolower n = map tolower (take vlen d)) variables = Some (n, part)"
    by (auto simp: set_directive_def Let_def enc_def vlen_def split: option.splits if_splits)
  have ap: "apply_set_directive E uh d
          = snd (curl_url_set E uh part
                   (if drop (p + 1) d \<noteq> [] then Some (drop (p + 1) d) else None)
                   ({CURLU_NON_SUPPORT_SCHEME} \<union> (if enc then {CURLU_URLENCODE} else {})))"
    using p f by (auto simp: apply_set_directive_def set_directive_def Let_def enc_def vlen_def)
  obtain vs' where sv:
    "set_vars E uh (Some i) d p vlen enc varset 0 variables s
     = Inr (apply_set_directive E uh d, vs', True)"
    using set_vars_find[of E uh i d p vlen enc varset 0 variables s] f
    by (auto simp: pred ap)
  have "set_loop E uh (Some i) (d # ds) varset s
        = (case set_vars E uh (Some i) d p vlen enc varset 0 variables s of
             Inl e \<Rightarrow> Inl e
           | Inr (uh', varset', found) \<Rightarrow>
               if \<not> found then errorf ERROR_SET (''Set unknown component: '' @ d) s
               else set_loop E uh' (Some i) ds varset' s)"
    using p by (simp add: Let_def enc_def vlen_def)
  then have "set_loop E uh (Some i) (d # ds) varset s
             = set_loop E (apply_set_directive E uh d) (Some i) ds vs' s"
    by (simp add: sv del: set_loop.simps)
  then show ?thesis by blast
qed

lemma set_loop_well_formed:
  "list_all (\<lambda>d. set_directive d \<noteq> None) ds \<Longrightarrow>
   set_loop E uh (Some i) ds varset s = Inr (foldl (apply_set_directive E) uh ds, s)"
proof (induction ds arbitrary: uh varset)
  case Nil
  then show ?case by simp
next
  case (Cons d ds)
  then have wf: "set_directive d \<noteq> None" and rest: "list_all (\<lambda>d. set_directive d \<noteq> None) ds"
    by simp_all
  obtain vs' where "set_loop E uh (Some i) (d # ds) varset s
               = set_loop E (apply_set_directive E uh d) (Some i) ds vs' s"
    using set_loop_step[OF wf, of E uh i ds varset s] by blast
  then show ?case
    using Cons.IH[OF rest] by simp
qed



lemma set'_well_formed:
  "i < length (chain s) \<Longrightarrow>
   list_all (\<lambda>d. set_directive d \<noteq> None) (slist_data s (set_list (chain s ! i))) \<Longrightarrow>
   set' E uh (Some i) s
   = Inr (foldl (apply_set_directive E) uh (slist_data s (set_list (chain s ! i))), s)"
  by (simp add: set'_def set_loop_well_formed)



section \<open>Properties: iteration and the main program\<close>

lemma strncmp_eq: "strncmp a b n = 0 \<longleftrightarrow> take n a = take n b"
  by (induction a b n rule: strncmp.induct) auto

lemmas arg_defs = getarg_def checkoptarg_def iterate_def iterate_prefix_def iterate_loop.simps
  setadd_def setadd_node_def curl_slist_append_def set_node_def addoptiter_def slist_clone_def
  urladd_def cnth_def state_zero_def option_zero_def strncmp_eq slist_data_def Let_def



lemma extractqpairs_no_query:
  "fst (curl_url_get E uh CURLUPART_QUERY {}) \<noteq> CURLUE_OK \<Longrightarrow>
   extractqpairs E uh s = s\<lparr>qpairs := []\<rparr>"
  by (simp add: extractqpairs_def case_prod_beta)

lemma get_loop_host:
  "curl_url_get E uh CURLUPART_HOST {CURLU_DEFAULT_PORT, CURLU_NO_DEFAULT_PORT, CURLU_URLDECODE}
     = (CURLUE_OK, v) \<Longrightarrow>
   get_loop E uh ''{host}'' s = fputs v s"
  by (simp add: variables_def strncasecmp_eq tolower_def insert_commute Let_def cong: let_weak_cong)

lemma singleurl_format_host:
  assumes parse: "curl_url_set E (curl_url E) CURLUPART_URL (Some u)
                    {CURLU_GUESS_SCHEME, CURLU_NON_SUPPORT_SCHEME} = (CURLUE_OK, h0)"
    and opt: "opt < length (chain s)"
    and fields: "format (chain s ! opt) = Some ''{host}''" "\<not> jsonout (chain s ! opt)"
      "redirect (chain s ! opt) = None" "\<not> accept_space (chain s ! opt)"
      "append_path (chain s ! opt) = None" "append_query (chain s ! opt) = None"
      "trim_list (chain s ! opt) = None"
    and wf: "list_all (\<lambda>d. set_directive d \<noteq> None) (slist_data s (set_list (chain s ! opt)))"
    and host: "curl_url_get E (foldl (apply_set_directive E) h0 (slist_data s (set_list (chain s ! opt))))
                 CURLUPART_HOST {CURLU_DEFAULT_PORT, CURLU_NO_DEFAULT_PORT, CURLU_URLDECODE}
               = (CURLUE_OK, v)"
    and noq: "fst (curl_url_get E (foldl (apply_set_directive E) h0 (slist_data s (set_list (chain s ! opt))))
                 CURLUPART_QUERY {}) \<noteq> CURLUE_OK"
  shows "singleurl E opt (Some u) s
         = Inr (count_url opt (s\<lparr>qpairs := [], out := out s @ v @ [CHR 0x0A]\<rparr>))"
proof -
  define h where "h = foldl (apply_set_directive E) h0 (slist_data s (set_list (chain s ! opt)))"
  define s0 where "s0 = s\<lparr>qpairs := []\<rparr>"
  have ch: "chain s0 = chain s" by (simp add: s0_def)
  have p: "singleurl_parse E opt (Some u) s = Inr (Some h0, s)"
    using parse fields by (simp add: singleurl_parse_def)
  have w: "set' E h0 (Some opt) s = Inr (h, s)"
    by (simp add: set'_well_formed[OF opt wf] h_def)
  have a: "append_path_loop E h (slist_data s (append_path (chain s ! opt))) s = Inr h"
    using fields by (simp add: slist_data_def)
  have e: "extractqpairs E h s = s0"
    using noq by (simp add: extractqpairs_no_query h_def s0_def)
  have f: "fold (\<lambda>d. addqpair d (length d)) (slist_data s0 (append_query (chain s0 ! opt))) s0 = s0"
    using fields by (simp add: slist_data_def ch)
  have tr: "trim opt s0 = Inr s0"
    using fields by (simp add: trim_def slist_data_def ch)
  have qq: "qpair2query E h s0 = (h, s0)"
    by (simp add: qpair2query_def qpair2query_nq_def s0_def)
  have g: "get_loop E h ''{host}'' s0 = fputs v s0"
    unfolding h_def by (rule get_loop_host[OF host])
  have ou: "singleurl_output E opt h s0 = Inr (fputc (CHR 0x0A) (fputs v s0))"
    using fields by (simp add: singleurl_output_def ch get_def g del: get_loop.simps)
  have q: "singleurl_query E opt h s = Inr (count_url opt (freeqpairs (fputc (CHR 0x0A) (fputs v s0))))"
    by (simp add: singleurl_query_def e f tr qq ou)
  have "singleurl E opt (Some u) s = Inr (count_url opt (freeqpairs (fputc (CHR 0x0A) (fputs v s0))))"
    by (simp add: singleurl_def p singleurl_work_def w a q)
  then show ?thesis
    by (simp add: s0_def fputs_def fputc_def freeqpairs_def count_url_def)
qed

lemmas url_defs = singleurl_def singleurl_parse_def singleurl_work_def singleurl_query_def
  singleurl_output_def set'_def extractqpairs_def qpair2query_def qpair2query_nq_def trim_def
  get_def count_url_def freeqpairs_def fputs_def fputc_def strncasecmp_eq tolower_def
  variables_def NUM_COMPONENTS_def

lemmas store_defs = store_engine_def store_set_def store_get_def store_parse_def store_absent_def

text \<open>
  The three command lines made of \<^verbatim>\<open>-g {host}\<close>, \<^verbatim>\<open>--iterate "hosts=a b c"\<close> and the
  URL in which \<^verbatim>\<open>-g\<close> stands before \<^verbatim>\<open>--iterate\<close>: the argument loop ends with a chain
  of three options that all have the format, with the set lists of \<^verbatim>\<open>a\<close>, \<^verbatim>\<open>b\<close>, \<^verbatim>\<open>c\<close>.
\<close>

lemma args_hosts:
  "args \<in> {[''-g'', ''{host}'', ''--iterate'', ''hosts=a b c'', ''https://example.com/x''],
            [''-g'', ''{host}'', ''https://example.com/x'', ''--iterate'', ''hosts=a b c''],
            [''https://example.com/x'', ''-g'', ''{host}'', ''--iterate'', ''hosts=a b c'']} \<Longrightarrow>
   \<exists>s. main_args E args state_zero = Inr s
     \<and> list_all (\<lambda>c. format c = Some ''{host}'' \<and> \<not> jsonout c \<and> redirect c = None
                     \<and> \<not> accept_space c \<and> append_path c = None \<and> append_query c = None
                     \<and> trim_list c = None) (chain s)
     \<and> map (\<lambda>c. slist_data s (set_list c)) (chain s)
         = [[''host=a''], [''host=a'', ''host=b''], [''host=a'', ''host=c'']]
     \<and> url (chain s ! 0) = None
     \<and> slist_data s (url_list (chain s ! 0)) = [''https://example.com/x'']
     \<and> out s = []"
  by (elim insertE emptyE; simp add: arg_defs cong: let_weak_cong)

text \<open>On such a chain the loop over the options writes the three hosts for one URL.\<close>

lemma variants_hosts:
  assumes parse: "curl_url_set E (curl_url E) CURLUPART_URL (Some u)
                    {CURLU_GUESS_SCHEME, CURLU_NON_SUPPORT_SCHEME} = (CURLUE_OK, h0)"
    and noq: "fst (curl_url_get E h0 CURLUPART_QUERY {}) \<noteq> CURLUE_OK"
    and host: "\<And>h v. v \<in> {''a'', ''b'', ''c''} \<Longrightarrow>
         curl_url_get E (snd (curl_url_set E h CURLUPART_HOST (Some v)
                                {CURLU_NON_SUPPORT_SCHEME, CURLU_URLENCODE}))
           CURLUPART_HOST {CURLU_DEFAULT_PORT, CURLU_NO_DEFAULT_PORT, CURLU_URLDECODE} = (CURLUE_OK, v)
         \<and> curl_url_get E (snd (curl_url_set E h CURLUPART_HOST (Some v)
                                  {CURLU_NON_SUPPORT_SCHEME, CURLU_URLENCODE}))
             CURLUPART_QUERY {} = curl_url_get E h CURLUPART_QUERY {}"
    and fields: "list_all (\<lambda>c. format c = Some ''{host}'' \<and> \<not> jsonout c \<and> redirect c = None
                     \<and> \<not> accept_space c \<and> append_path c = None \<and> append_query c = None
                     \<and> trim_list c = None) (chain s1)"
    and sets: "map (\<lambda>c. slist_data s1 (set_list c)) (chain s1)
                 = [[''host=a''], [''host=a'', ''host=b''], [''host=a'', ''host=c'']]"
  shows "\<exists>s. variants_loop E [0..<length (chain s1)] (Some u) s1 = Inr s
           \<and> out s = out s1 @ ''a'' @ [CHR 0x0A] @ ''b'' @ [CHR 0x0A] @ ''c'' @ [CHR 0x0A]
           \<and> length (chain s) = 3 \<and> \<not> jsonout (chain s ! 0)"
proof -
  from sets have "length (chain s1) = 3"
    using length_map[of "\<lambda>c. slist_data s1 (set_list c)" "chain s1"] by simp
  then obtain c0 c1 c2 where ch: "chain s1 = [c0, c1, c2]"
    by (auto simp: length_Suc_conv numeral_3_eq_3)
  have sl: "slist_data s1 (set_list c0) = [''host=a'']"
      "slist_data s1 (set_list c1) = [''host=a'', ''host=b'']"
      "slist_data s1 (set_list c2) = [''host=a'', ''host=c'']"
    using sets by (simp_all add: ch)
  have sd: "set_directive ''host=a'' = Some (CURLUPART_HOST, Some ''a'', True)"
       "set_directive ''host=b'' = Some (CURLUPART_HOST, Some ''b'', True)"
       "set_directive ''host=c'' = Some (CURLUPART_HOST, Some ''c'', True)"
    by (simp_all add: set_directive_def variables_def tolower_def Let_def cong: let_weak_cong)
  have fl: "{CURLU_URLENCODE, CURLU_NON_SUPPORT_SCHEME} = {CURLU_NON_SUPPORT_SCHEME, CURLU_URLENCODE}"
    by auto
  have sdata: "\<And>s p. slists s = slists s1 \<Longrightarrow> slist_data s p = slist_data s1 p"
    by (simp add: slist_data_def split: option.split)
  define s2 where "s2 = count_url 0 (s1\<lparr>qpairs := [], out := out s1 @ ''a'' @ [CHR 0x0A]\<rparr>)"
  define s3 where "s3 = count_url 1 (s2\<lparr>qpairs := [], out := out s2 @ ''b'' @ [CHR 0x0A]\<rparr>)"
  define s4 where "s4 = count_url 2 (s3\<lparr>qpairs := [], out := out s3 @ ''c'' @ [CHR 0x0A]\<rparr>)"
  have r1: "singleurl E 0 (Some u) s1 = Inr s2"
    unfolding s2_def using noq fields
    by (rule_tac singleurl_format_host[OF parse, where v = "''a''"])
       (simp_all add: ch sl sd apply_set_directive_def fl host del: not_None_eq)
  have ch2: "chain s2 = [c0\<lparr>urls := urls c0 + 1\<rparr>, c1, c2]" "slists s2 = slists s1"
    by (simp_all add: s2_def count_url_def ch)
  have r2: "singleurl E 1 (Some u) s2 = Inr s3"
    unfolding s3_def using noq fields
    by (rule_tac singleurl_format_host[OF parse, where v = "''b''"])
       (simp_all add: ch2 ch sdata sl sd apply_set_directive_def fl host del: not_None_eq)
  have ch3: "chain s3 = [c0\<lparr>urls := urls c0 + 1\<rparr>, c1\<lparr>urls := urls c1 + 1\<rparr>, c2]"
      "slists s3 = slists s1"
    by (simp_all add: s3_def count_url_def ch2)
  have r3: "singleurl E 2 (Some u) s3 = Inr s4"
    unfolding s4_def using noq fields
    by (rule_tac singleurl_format_host[OF parse, where v = "''c''"])
       (simp_all add: ch3 ch sdata sl sd apply_set_directive_def fl host del: not_None_eq)
  have ch4: "length (chain s4) = 3" "\<not> jsonout (chain s4 ! 0)"
    using fields by (simp_all add: s4_def count_url_def ch3 ch)
  have o4: "out s4 = out s1 @ ''a'' @ [CHR 0x0A] @ ''b'' @ [CHR 0x0A] @ ''c'' @ [CHR 0x0A]"
    by (simp add: s4_def s3_def s2_def count_url_def)
  have up: "[0..<3] = [0, 1, 2]" by (simp add: upt_rec)
  have "variants_loop E [0..<length (chain s1)] (Some u) s1 = Inr s4"
    using r1 r2 r3 by (simp add: ch up numeral_2_eq_2)
  with o4 ch4 show ?thesis by blast
qed

text \<open>So each of the three command lines writes the three hosts and returns 0.\<close>

lemma main_hosts:
  assumes parse: "curl_url_set E (curl_url E) CURLUPART_URL (Some ''https://example.com/x'')
                    {CURLU_GUESS_SCHEME, CURLU_NON_SUPPORT_SCHEME} = (CURLUE_OK, h0)"
    and noq: "fst (curl_url_get E h0 CURLUPART_QUERY {}) \<noteq> CURLUE_OK"
    and host: "\<And>h v. v \<in> {''a'', ''b'', ''c''} \<Longrightarrow>
         curl_url_get E (snd (curl_url_set E h CURLUPART_HOST (Some v)
                                {CURLU_NON_SUPPORT_SCHEME, CURLU_URLENCODE}))
           CURLUPART_HOST {CURLU_DEFAULT_PORT, CURLU_NO_DEFAULT_PORT, CURLU_URLDECODE} = (CURLUE_OK, v)
         \<and> curl_url_get E (snd (curl_url_set E h CURLUPART_HOST (Some v)
                                  {CURLU_NON_SUPPORT_SCHEME, CURLU_URLENCODE}))
             CURLUPART_QUERY {} = curl_url_get E h CURLUPART_QUERY {}"
    and args: "args \<in> {[''-g'', ''{host}'', ''--iterate'', ''hosts=a b c'', ''https://example.com/x''],
            [''-g'', ''{host}'', ''https://example.com/x'', ''--iterate'', ''hosts=a b c''],
            [''https://example.com/x'', ''-g'', ''{host}'', ''--iterate'', ''hosts=a b c'']}"
  shows "\<exists>s. main E (''trurl'' # args) = Inr (0, s)
              \<and> out s = ''a'' @ [CHR 0x0A] @ ''b'' @ [CHR 0x0A] @ ''c'' @ [CHR 0x0A]"
proof -
  let ?u = "''https://example.com/x''"
  from args_hosts[OF args, of E] obtain s1 where a:
    "main_args E args state_zero = Inr s1
     \<and> list_all (\<lambda>c. format c = Some ''{host}'' \<and> \<not> jsonout c \<and> redirect c = None
                     \<and> \<not> accept_space c \<and> append_path c = None \<and> append_query c = None
                     \<and> trim_list c = None) (chain s1)
     \<and> map (\<lambda>c. slist_data s1 (set_list c)) (chain s1)
         = [[''host=a''], [''host=a'', ''host=b''], [''host=a'', ''host=c'']]
     \<and> url (chain s1 ! 0) = None
     \<and> slist_data s1 (url_list (chain s1 ! 0)) = [?u]
     \<and> out s1 = []" ..
  note s1 = a[THEN conjunct1]
  note fields = a[THEN conjunct2, THEN conjunct1]
  note sets = a[THEN conjunct2, THEN conjunct2, THEN conjunct1]
  note u1 = a[THEN conjunct2, THEN conjunct2, THEN conjunct2, THEN conjunct1]
    a[THEN conjunct2, THEN conjunct2, THEN conjunct2, THEN conjunct2, THEN conjunct1]
  note o1 = a[THEN conjunct2, THEN conjunct2, THEN conjunct2, THEN conjunct2, THEN conjunct2]
  obtain s4 where v: "variants_loop E [0..<length (chain s1)] (Some ?u) s1 = Inr s4"
    and o4: "out s4 = out s1 @ ''a'' @ [CHR 0x0A] @ ''b'' @ [CHR 0x0A] @ ''c'' @ [CHR 0x0A]"
    and ch4: "length (chain s4) = 3" "\<not> jsonout (chain s4 ! 0)"
    using variants_hosts[OF parse noq host fields sets] by blast
  from sets have "length (chain s1) = 3"
    using length_map[of "\<lambda>c. slist_data s1 (set_list c)" "chain s1"] by simp
  then have j1: "\<not> jsonout (chain s1 ! 0)"
    using fields by (simp add: list_all_length)
  have "main E (''trurl'' # args) = Inr (0, s4)"
    using ch4 j1 by (simp add: main_def s1 u1 v del: main_args.simps)
  with o4 o1 show ?thesis by simp
qed

text \<open>
  Claim C1, as amended: the format is part of the base option when the directive is
  read. On the base configuration with the format \<^verbatim>\<open>{host}\<close>, the directive
  \<^verbatim>\<open>hosts=a b c\<close> makes a chain of three options whose set lists end in \<^verbatim>\<open>host=a\<close>,
  \<^verbatim>\<open>host=b\<close> and \<^verbatim>\<open>host=c\<close>, in this order, each with the format of the base. With an
  engine that parses \<^verbatim>\<open>https://example.com/x\<close> to a URL without query and that
  reports a host set to one of the tokens as that token (leaving the query absent),
  every command line made of \<^verbatim>\<open>-g {host}\<close>, \<^verbatim>\<open>--iterate "hosts=a b c"\<close> and the URL in
  which \<^verbatim>\<open>-g\<close> stands before \<^verbatim>\<open>--iterate\<close> (the URL last, between the two, or first)
  writes the three lines \<^verbatim>\<open>a\<close>, \<^verbatim>\<open>b\<close>, \<^verbatim>\<open>c\<close> to stdout and returns 0.
\<close>

theorem iterate_hosts_order:
  assumes parse: "curl_url_set E (curl_url E) CURLUPART_URL (Some ''https://example.com/x'')
                    {CURLU_GUESS_SCHEME, CURLU_NON_SUPPORT_SCHEME} = (CURLUE_OK, h0)"
    and noq: "fst (curl_url_get E h0 CURLUPART_QUERY {}) \<noteq> CURLUE_OK"
    and host: "\<And>h v. v \<in> {''a'', ''b'', ''c''} \<Longrightarrow>
         curl_url_get E (snd (curl_url_set E h CURLUPART_HOST (Some v)
                                {CURLU_NON_SUPPORT_SCHEME, CURLU_URLENCODE}))
           CURLUPART_HOST {CURLU_DEFAULT_PORT, CURLU_NO_DEFAULT_PORT, CURLU_URLDECODE} = (CURLUE_OK, v)
         \<and> curl_url_get E (snd (curl_url_set E h CURLUPART_HOST (Some v)
                                  {CURLU_NON_SUPPORT_SCHEME, CURLU_URLENCODE}))
             CURLUPART_QUERY {} = curl_url_get E h CURLUPART_QUERY {}"
  shows "(\<exists>s. iterate 0 ''hosts=a b c''
                 (set_node 0 (\<lambda>x. x\<lparr>format := Some ''{host}''\<rparr>) state_zero) = Inr s
            \<and> map (\<lambda>c. slist_data s (set_list c)) (chain s)
                = [[''host=a''], [''host=a'', ''host=b''], [''host=a'', ''host=c'']]
            \<and> map format (chain s) = [Some ''{host}'', Some ''{host}'', Some ''{host}''])
       \<and> (\<exists>s. main E [''trurl'', ''-g'', ''{host}'', ''--iterate'', ''hosts=a b c'',
                        ''https://example.com/x''] = Inr (0, s)
              \<and> out s = ''a'' @ [CHR 0x0A] @ ''b'' @ [CHR 0x0A] @ ''c'' @ [CHR 0x0A])
       \<and> (\<exists>s. main E [''trurl'', ''-g'', ''{host}'', ''https://example.com/x'',
                        ''--iterate'', ''hosts=a b c''] = Inr (0, s)
              \<and> out s = ''a'' @ [CHR 0x0A] @ ''b'' @ [CHR 0x0A] @ ''c'' @ [CHR 0x0A])
       \<and> (\<exists>s. main E [''trurl'', ''https://example.com/x'', ''-g'', ''{host}'',
                        ''--iterate'', ''hosts=a b c''] = Inr (0, s)
              \<and> out s = ''a'' @ [CHR 0x0A] @ ''b'' @ [CHR 0x0A] @ ''c'' @ [CHR 0x0A])"
proof (intro conjI)
  show "\<exists>s. iterate 0 ''hosts=a b c''
                 (set_node 0 (\<lambda>x. x\<lparr>format := Some ''{host}''\<rparr>) state_zero) = Inr s
            \<and> map (\<lambda>c. slist_data s (set_list c)) (chain s)
                = [[''host=a''], [''host=a'', ''host=b''], [''host=a'', ''host=c'']]
            \<and> map format (chain s) = [Some ''{host}'', Some ''{host}'', Some ''{host}'']"
    by (simp add: arg_defs cong: let_weak_cong)
next
  show "\<exists>s. main E [''trurl'', ''-g'', ''{host}'', ''--iterate'', ''hosts=a b c'',
                        ''https://example.com/x''] = Inr (0, s)
              \<and> out s = ''a'' @ [CHR 0x0A] @ ''b'' @ [CHR 0x0A] @ ''c'' @ [CHR 0x0A]"
    by (rule main_hosts[OF parse noq host]) simp_all
next
  show "\<exists>s. main E [''trurl'', ''-g'', ''{host}'', ''https://example.com/x'',
                        ''--iterate'', ''hosts=a b c''] = Inr (0, s)
              \<and> out s = ''a'' @ [CHR 0x0A] @ ''b'' @ [CHR 0x0A] @ ''c'' @ [CHR 0x0A]"
    by (rule main_hosts[OF parse noq host]) simp_all
next
  show "\<exists>s. main E [''trurl'', ''https://example.com/x'', ''-g'', ''{host}'',
                        ''--iterate'', ''hosts=a b c''] = Inr (0, s)
              \<and> out s = ''a'' @ [CHR 0x0A] @ ''b'' @ [CHR 0x0A] @ ''c'' @ [CHR 0x0A]"
    by (rule main_hosts[OF parse noq host]) simp_all
qed

text \<open>The store engine is such an engine.\<close>

theorem iterate_hosts_order_witness:
  "(\<exists>s. main (store_engine (\<lambda>f. None))
            [''trurl'', ''-g'', ''{host}'', ''--iterate'', ''hosts=a b c'', ''https://example.com/x'']
          = Inr (0, s)
       \<and> out s = ''a'' @ [CHR 0x0A] @ ''b'' @ [CHR 0x0A] @ ''c'' @ [CHR 0x0A])
   \<and> (\<exists>s. main (store_engine (\<lambda>f. None))
            [''trurl'', ''-g'', ''{host}'', ''https://example.com/x'', ''--iterate'', ''hosts=a b c'']
          = Inr (0, s)
       \<and> out s = ''a'' @ [CHR 0x0A] @ ''b'' @ [CHR 0x0A] @ ''c'' @ [CHR 0x0A])
   \<and> (\<exists>s. main (store_engine (\<lambda>f. None))
            [''trurl'', ''https://example.com/x'', ''-g'', ''{host}'', ''--iterate'', ''hosts=a b c'']
          = Inr (0, s)
       \<and> out s = ''a'' @ [CHR 0x0A] @ ''b'' @ [CHR 0x0A] @ ''c'' @ [CHR 0x0A])"
proof -
  define h0 :: store where "h0 = snd (store_set (\<lambda>p. None) CURLUPART_URL (Some ''https://example.com/x'')
                    {CURLU_GUESS_SCHEME, CURLU_NON_SUPPORT_SCHEME})"
  have h0: "h0 CURLUPART_QUERY = None"
    by (simp add: h0_def store_defs Let_def)
  have parse: "curl_url_set (store_engine (\<lambda>f. None)) (curl_url (store_engine (\<lambda>f. None)))
                 CURLUPART_URL (Some ''https://example.com/x'')
                 {CURLU_GUESS_SCHEME, CURLU_NON_SUPPORT_SCHEME} = (CURLUE_OK, h0)"
    by (simp add: h0_def store_defs Let_def)
  have noq: "fst (curl_url_get (store_engine (\<lambda>f. None)) h0 CURLUPART_QUERY {}) \<noteq> CURLUE_OK"
    by (simp add: store_engine_def store_get_def h0 store_absent_def)
  show ?thesis
    by (rule iterate_hosts_order[OF parse noq, THEN conjunct2]) (simp add: store_engine_def store_get_def store_set_def)
qed

text \<open>
  Claim C1 as stated fails when the format is given behind the directive: for
  \<^verbatim>\<open>trurl --iterate "hosts=a b c" -g {host} https://example.com/x\<close> the output is
  \<^verbatim>\<open>a\<close>, \<^verbatim>\<open>https://b/x\<close>, \<^verbatim>\<open>https://c/x\<close>. \<^verbatim>\<open>addoptiter\<close> copies the option as it is
  when \<^verbatim>\<open>--iterate\<close> is read, and \<^verbatim>\<open>getarg\<close> stores a later \<^verbatim>\<open>-g\<close> in the base option
  only, so the options for \<^verbatim>\<open>b\<close> and \<^verbatim>\<open>c\<close> have no format and their URLs are written
  in full.
\<close>

theorem iterate_hosts_order_counterexample:
  "\<exists>s. main (store_engine (\<lambda>f. None))
            [''trurl'', ''--iterate'', ''hosts=a b c'', ''-g'', ''{host}'', ''https://example.com/x'']
          = Inr (0, s)
       \<and> out s = ''a'' @ [CHR 0x0A] @ ''https://b/x'' @ [CHR 0x0A] @ ''https://c/x'' @ [CHR 0x0A]"
  by (simp add: main_def arg_defs url_defs store_defs get_vars.simps
           upt_rec insert_commute cong: let_weak_cong)

text \<open>The two other places of the URL, with \<^verbatim>\<open>-g\<close> behind \<^verbatim>\<open>--iterate\<close>, give the same.\<close>

lemma format_after_iterate:
  "(\<exists>s. main (store_engine (\<lambda>f. None))
            [''trurl'', ''--iterate'', ''hosts=a b c'', ''https://example.com/x'', ''-g'', ''{host}'']
          = Inr (0, s)
       \<and> out s = ''a'' @ [CHR 0x0A] @ ''https://b/x'' @ [CHR 0x0A] @ ''https://c/x'' @ [CHR 0x0A])
   \<and> (\<exists>s. main (store_engine (\<lambda>f. None))
            [''trurl'', ''https://example.com/x'', ''--iterate'', ''hosts=a b c'', ''-g'', ''{host}'']
          = Inr (0, s)
       \<and> out s = ''a'' @ [CHR 0x0A] @ ''https://b/x'' @ [CHR 0x0A] @ ''https://c/x'' @ [CHR 0x0A])"
  by (simp add: main_def arg_defs url_defs store_defs get_vars.simps
           upt_rec insert_commute cong: let_weak_cong)

text \<open>
  Claim C9 fails on the code: after \<^verbatim>\<open>--iterate hosts=a\<close>, which adds no option to
  the chain, a second \<^verbatim>\<open>--iterate\<close> is accepted and expanded. The test in \<^verbatim>\<open>getarg\<close> is
  \<^verbatim>\<open>op->iterate\<close>, which only a directive of two or more tokens sets.
\<close>

theorem second_iterate_accepted:
  "\<exists>s. main_args E [''--iterate'', ''hosts=a'', ''--iterate'', ''hosts=b c''] state_zero = Inr s
       \<and> map (\<lambda>c. slist_data s (set_list c)) (chain s)
           = [[''host=a'', ''host=b''], [''host=a'', ''host=b'', ''host=c'']]"
  by (simp add: arg_defs cong: let_weak_cong)

text \<open>Once the chain has a second option, \<^verbatim>\<open>--iterate\<close> is refused as the claim says.\<close>

lemma getarg_second_iterate:
  "Suc op < length (chain s) \<Longrightarrow>
   getarg E op ''--iterate'' (Some a) s = errorf ERROR_ITER ''only one --iterate is supported'' s"
  by (simp add: getarg_def checkoptarg_def)

text \<open>
  With URLs read from a file, no URL is processed at all when the chain is the base
  option alone.
\<close>

lemma main_file_single:
  "length (chain s) = 1 \<Longrightarrow> main_file E f s = Inr s"
proof (induction E f s rule: main_file.induct)
  case (1 E f s)
  then show ?case
    by (subst main_file.simps) (auto split: option.splits prod.splits)
qed

text \<open>
  Claim C2 fails on the code for URLs read from a file: with the options for \<^verbatim>\<open>a\<close>,
  \<^verbatim>\<open>b\<close> and \<^verbatim>\<open>c\<close> in the chain, the URL of the file is processed for \<^verbatim>\<open>a\<close> and
  \<^verbatim>\<open>b\<close> only, while the same URL given on the command line is processed for all three.
\<close>

theorem file_mode_skips_last_option:
  "(\<exists>s. main (store_engine (\<lambda>f. if f = ''urls.txt''
                                   then Some (''https://example.com/x'' @ [CHR 0x0A]) else None))
             [''trurl'', ''--iterate'', ''hosts=a b c'', ''-f'', ''urls.txt''] = Inr (0, s)
        \<and> out s = ''https://a/x'' @ [CHR 0x0A] @ ''https://b/x'' @ [CHR 0x0A])
   \<and> (\<exists>s. main (store_engine (\<lambda>f. None))
             [''trurl'', ''--iterate'', ''hosts=a b c'', ''https://example.com/x''] = Inr (0, s)
        \<and> out s = ''https://a/x'' @ [CHR 0x0A] @ ''https://b/x'' @ [CHR 0x0A]
                    @ ''https://c/x'' @ [CHR 0x0A])"
  by (simp add: main_def arg_defs url_defs store_defs urlfile_def main_file.simps fgets_def
           upt_rec cong: let_weak_cong)

end
